theory Spec2Isabelle
  imports Complex_Main
begin

section \<open>JavaScript values as the validators observe them\<close>

text \<open>
  The repository holds three implementations of the row validators: the function
  \<^verbatim>\<open>validateClients\<close> of \<^verbatim>\<open>utils/validation.ts\<close>, the three validators of the component
  in \<^verbatim>\<open>app/page.tsx\<close>, which accumulate their errors in the component's state, and the
  three validators of the \<^verbatim>\<open>Home\<close> component, which also check references between
  datasets. All three are modelled below, each under its own names.

  The validators read rows produced by the CSV and XLSX decoders. A cell is text, a
  number, or the key is missing from the row object (\<^verbatim>\<open>undefined\<close>). Native numbers
  are modelled by the integers, which \<^verbatim>\<open>String\<close> prints in decimal; native fractions,
  booleans and dates are outside the model. Strings are lists of 8-bit code units. A row
  is the object's list of (column name, value) pairs and is only ever read by property
  access.
\<close>

datatype cell = Undefined | Str string | Num int

type_synonym row = "(string \<times> cell) list"

definition get :: "row \<Rightarrow> string \<Rightarrow> cell" where
  "get r k = (case map_of r k of None \<Rightarrow> Undefined | Some v \<Rightarrow> v)"

text \<open>Truthiness (\<^verbatim>\<open>if (x)\<close>, \<^verbatim>\<open>!x\<close>, \<^verbatim>\<open>x && y\<close>).\<close>

fun truthy :: "cell \<Rightarrow> bool" where
  "truthy Undefined = False"
| "truthy (Str s) = (s \<noteq> [])"
| "truthy (Num n) = (n \<noteq> 0)"

subsection \<open>\<^verbatim>\<open>String(x)\<close> and template interpolation\<close>

definition digit_char :: "nat \<Rightarrow> char" where
  "digit_char d = ''0123456789'' ! d"

function digits_of :: "nat \<Rightarrow> string" where
  "digits_of n = (if n < 10 then [digit_char n] else digits_of (n div 10)
      @ [digit_char (n mod 10)])"
  by pat_completeness auto
termination
  by (relation "measure id") auto

declare digits_of.simps [simp del]

fun js_String :: "cell \<Rightarrow> string" where
  "js_String Undefined = ''undefined''"
| "js_String (Str s) = s"
| "js_String (Num n) = (if n < 0 then CHR ''-'' # digits_of (nat (- n)) else digits_of (nat n))"

subsection \<open>\<^verbatim>\<open>trim\<close> and \<^verbatim>\<open>split\<close>\<close>

definition is_space :: "char \<Rightarrow> bool" where
  "is_space c = (c \<in> set [CHR 0x09, CHR 0x0A, CHR 0x0B, CHR 0x0C, CHR 0x0D, CHR 0x20, CHR 0xA0])"

definition trim :: "string \<Rightarrow> string" where
  "trim s = rev (dropWhile is_space (rev (dropWhile is_space s)))"

text \<open>\<^verbatim>\<open>s.split(",")\<close>: the empty string gives one empty piece.\<close>

fun split :: "char \<Rightarrow> string \<Rightarrow> string list" where
  "split sep [] = [[]]"
| "split sep (c # cs) =
     (if c = sep then [] # split sep cs
      else (case split sep cs of [] \<Rightarrow> [[c]] | x # xs \<Rightarrow> (c # x) # xs))"

text \<open>\<^verbatim>\<open>s.indexOf(t)\<close>: the first position at which \<open>t\<close> occurs in \<open>s\<close>, or \<open>-1\<close>.\<close>

fun indexOf_from :: "int \<Rightarrow> string \<Rightarrow> string \<Rightarrow> int" where
  "indexOf_from i [] t = (if t = [] then i else - 1)"
| "indexOf_from i (c # cs) t =
     (if take (length t) (c # cs) = t then i else indexOf_from (i + 1) cs t)"

definition indexOf :: "string \<Rightarrow> string \<Rightarrow> int" where
  "indexOf s t = indexOf_from 0 s t"

subsection \<open>\<^verbatim>\<open>Number(x)\<close> and the relational operators\<close>

text \<open>
  A comparison of a cell with a number literal converts the cell with ToNumber. The
  value of a numeric string is kept exact (a rational); its rounding to binary64 is not
  modelled.
\<close>

datatype number = NaN | Fin rat | PosInf | NegInf

definition is_digit :: "char \<Rightarrow> bool" where
  "is_digit c = (c \<in> set ''0123456789'')"

definition is_hex_digit :: "char \<Rightarrow> bool" where
  "is_hex_digit c = (c \<in> set ''0123456789abcdefABCDEF'')"

definition digit_val :: "char \<Rightarrow> nat" where
  "digit_val c =
     (if c \<in> set ''0123456789'' then of_char c - 48
      else if c \<in> set ''abcdef'' then of_char c - 87
      else of_char c - 55)"

definition radix_val :: "nat \<Rightarrow> string \<Rightarrow> nat" where
  "radix_val b s = foldl (\<lambda>a c. b * a + digit_val c) 0 s"

definition signed_digits :: "int \<Rightarrow> string \<Rightarrow> int option" where
  "signed_digits sg ds =
     (if ds \<noteq> [] \<and> list_all is_digit ds then Some (sg * int (radix_val 10 ds)) else None)"

definition exponent_part :: "string \<Rightarrow> int option" where
  "exponent_part s =
     (case s of
        [] \<Rightarrow> Some 0
      | c # r \<Rightarrow>
          if c = CHR ''e'' \<or> c = CHR ''E'' then
            (case r of
               [] \<Rightarrow> None
             | d # r' \<Rightarrow>
                 if d = CHR ''+'' then signed_digits 1 r'
                 else if d = CHR ''-'' then signed_digits (- 1) r'
                 else signed_digits 1 r)
          else None)"

definition scale10 :: "rat \<Rightarrow> int \<Rightarrow> rat" where
  "scale10 m e = (if 0 \<le> e then m * 10 ^ nat e else m / 10 ^ nat (- e))"

definition unsigned_decimal :: "string \<Rightarrow> number" where
  "unsigned_decimal s =
     (if s = ''Infinity'' then PosInf
      else
        let ip = takeWhile is_digit s;
            r1 = dropWhile is_digit s;
            has_dot = (r1 \<noteq> [] \<and> hd r1 = CHR ''.'');
            fp = (if has_dot then takeWhile is_digit (tl r1) else []);
            r2 = (if has_dot then dropWhile is_digit (tl r1) else r1)
        in if ip = [] \<and> fp = [] then NaN
           else (case exponent_part r2 of
                   None \<Rightarrow> NaN
                 | Some e \<Rightarrow> Fin (scale10 (of_nat (radix_val 10 (ip @ fp))) (e - int (length fp)))))"

definition non_decimal :: "string \<Rightarrow> number option" where
  "non_decimal s =
     (case s of
        z # x # ds \<Rightarrow>
          if z = CHR ''0'' \<and> ds \<noteq> [] then
            (if x \<in> set ''xX'' \<and> list_all is_hex_digit ds then Some (Fin (of_nat (radix_val 16 ds)))
             else if x \<in> set ''oO'' \<and> list_all (\<lambda>c. c \<in> set ''01234567'') ds
               then Some (Fin (of_nat (radix_val 8 ds)))
             else if x \<in> set ''bB'' \<and> list_all (\<lambda>c. c \<in> set ''01'') ds
               then Some (Fin (of_nat (radix_val 2 ds)))
             else None)
          else None
      | _ \<Rightarrow> None)"

fun negate :: "number \<Rightarrow> number" where
  "negate NaN = NaN"
| "negate (Fin q) = Fin (- q)"
| "negate PosInf = NegInf"
| "negate NegInf = PosInf"

definition string_to_number :: "string \<Rightarrow> number" where
  "string_to_number s =
     (let t = trim s in
      if t = [] then Fin 0
      else (case non_decimal t of
              Some n \<Rightarrow> n
            | None \<Rightarrow>
                if hd t = CHR ''+'' then unsigned_decimal (tl t)
                else if hd t = CHR ''-'' then negate (unsigned_decimal (tl t))
                else unsigned_decimal t))"

fun Number :: "cell \<Rightarrow> number" where
  "Number Undefined = NaN"
| "Number (Str s) = string_to_number s"
| "Number (Num n) = Fin (of_int n)"

definition isNaN :: "number \<Rightarrow> bool" where
  "isNaN x = (x = NaN)"

text \<open>\<^verbatim>\<open>a < b\<close> on numbers: false as soon as one side is NaN.\<close>

fun num_less :: "number \<Rightarrow> number \<Rightarrow> bool" where
  "num_less NaN y = False"
| "num_less x NaN = False"
| "num_less (Fin a) (Fin b) = (a < b)"
| "num_less (Fin a) PosInf = True"
| "num_less (Fin a) NegInf = False"
| "num_less PosInf y = False"
| "num_less NegInf NegInf = False"
| "num_less NegInf y = True"

text \<open>\<^verbatim>\<open>x < k\<close> and \<^verbatim>\<open>x > k\<close> for a cell \<open>x\<close> and an integer literal \<open>k\<close>.\<close>

definition js_lt :: "cell \<Rightarrow> int \<Rightarrow> bool" where
  "js_lt x k = num_less (Number x) (Fin (of_int k))"

definition js_gt :: "cell \<Rightarrow> int \<Rightarrow> bool" where
  "js_gt x k = num_less (Fin (of_int k)) (Number x)"

subsection \<open>\<^verbatim>\<open>JSON.parse\<close>\<close>

text \<open>
  The built-in parser, as a lexer over the characters followed by a stack machine over
  the tokens. A syntax error (the \<^verbatim>\<open>SyntaxError\<close> exception) is the value \<open>None\<close>.
  String and number lexemes are kept as written.
\<close>

datatype json =
    JNull
  | JBool bool
  | JNumber string
  | JString string
  | JArray "json list"
  | JObject "(string \<times> json) list"

datatype token =
    TLBrace | TRBrace | TLBrack | TRBrack | TColon | TComma
  | TString string | TNumber string | TLiteral json

datatype lex_mode =
    Idle
  | InStr string
  | InEsc string
  | InHex nat string
  | InNum string
  | InLit string

definition dquote :: char where
  "dquote = CHR 0x22"

definition backslash :: char where
  "backslash = CHR 0x5C"

definition json_space :: "char \<Rightarrow> bool" where
  "json_space c = (c \<in> set [CHR 0x20, CHR 0x09, CHR 0x0A, CHR 0x0D])"

definition punct :: "char \<Rightarrow> token option" where
  "punct c =
     (if c = CHR ''{'' then Some TLBrace
      else if c = CHR ''}'' then Some TRBrace
      else if c = CHR ''['' then Some TLBrack
      else if c = CHR '']'' then Some TRBrack
      else if c = CHR '':'' then Some TColon
      else if c = CHR '','' then Some TComma
      else None)"

text \<open>The number grammar: \<^verbatim>\<open>-?(0|[1-9][0-9]*)(\.[0-9]+)?([eE][+-]?[0-9]+)?\<close>.\<close>

definition json_fraction :: "string \<Rightarrow> bool" where
  "json_fraction r =
     (case r of
        [] \<Rightarrow> True
      | c # r' \<Rightarrow>
          if c = CHR ''.'' then takeWhile is_digit r' \<noteq> []
              \<and> exponent_part (dropWhile is_digit r') \<noteq> None
          else exponent_part r \<noteq> None)"

definition json_number :: "string \<Rightarrow> bool" where
  "json_number s =
     (let u = (if s \<noteq> [] \<and> hd s = CHR ''-'' then tl s else s);
          ip = takeWhile is_digit u
      in ip \<noteq> [] \<and> (if hd ip = CHR ''0'' then length ip = 1 else True)
         \<and> json_fraction (dropWhile is_digit u))"

definition json_literal :: "string \<Rightarrow> json option" where
  "json_literal w =
     (if w = ''true'' then Some (JBool True)
      else if w = ''false'' then Some (JBool False)
      else if w = ''null'' then Some JNull
      else None)"

definition emit :: "token \<Rightarrow> token list option \<Rightarrow> token list option" where
  "emit t r = map_option ((#) t) r"

function json_lex :: "lex_mode \<Rightarrow> string \<Rightarrow> token list option" where
  "json_lex Idle [] = Some []"
| "json_lex Idle (c # cs) =
     (if json_space c then json_lex Idle cs
      else if c = dquote then json_lex (InStr []) cs
      else if c = CHR ''-'' \<or> is_digit c then json_lex (InNum [c]) cs
      else if c \<in> set ''abcdefghijklmnopqrstuvwxyz'' then json_lex (InLit [c]) cs
      else (case punct c of None \<Rightarrow> None | Some t \<Rightarrow> emit t (json_lex Idle cs)))"
| "json_lex (InStr acc) [] = None"
| "json_lex (InStr acc) (c # cs) =
     (if c = dquote then emit (TString acc) (json_lex Idle cs)
      else if c = backslash then json_lex (InEsc (acc @ [c])) cs
      else if (of_char c :: nat) < 32 then None
      else json_lex (InStr (acc @ [c])) cs)"
| "json_lex (InEsc acc) [] = None"
| "json_lex (InEsc acc) (c # cs) =
     (if c = dquote \<or> c = backslash \<or> c \<in> set ''/bfnrt'' then json_lex (InStr (acc @ [c])) cs
      else if c = CHR ''u'' then json_lex (InHex 4 (acc @ [c])) cs
      else None)"
| "json_lex (InHex k acc) [] = None"
| "json_lex (InHex k acc) (c # cs) =
     (if is_hex_digit c then
        (if k \<le> 1 then json_lex (InStr (acc @ [c])) cs else json_lex (InHex (k - 1) (acc @ [c])) cs)
      else None)"
| "json_lex (InNum acc) [] = (if json_number acc then Some [TNumber acc] else None)"
| "json_lex (InNum acc) (c # cs) =
     (if c \<in> set ''0123456789+-.eE'' then json_lex (InNum (acc @ [c])) cs
      else if json_number acc then emit (TNumber acc) (json_lex Idle (c # cs))
      else None)"
| "json_lex (InLit acc) [] = map_option (\<lambda>v. [TLiteral v]) (json_literal acc)"
| "json_lex (InLit acc) (c # cs) =
     (if c \<in> set ''abcdefghijklmnopqrstuvwxyz'' then json_lex (InLit (acc @ [c])) cs
      else (case json_literal acc of
              None \<Rightarrow> None
            | Some v \<Rightarrow> emit (TLiteral v) (json_lex Idle (c # cs))))"
  by pat_completeness auto
termination
  by (relation "measure (\<lambda>(m, s). 2 * length s + (case m of InNum a \<Rightarrow> 1 | InLit a \<Rightarrow> 1 | _ \<Rightarrow> 0))")
    auto

datatype frame = ArrF "json list" | ObjF "(string \<times> json) list" string

datatype expect = Value | ValueOrEnd | KeyOrEnd | Key | Colon | CommaOrEnd | Finished json

type_synonym pstate = "expect \<times> frame list"

text \<open>A value is complete: it is the result, or the next element or member of the
  innermost open container.\<close>

fun complete :: "json \<Rightarrow> frame list \<Rightarrow> pstate" where
  "complete v [] = (Finished v, [])"
| "complete v (ArrF items # fs) = (CommaOrEnd, ArrF (items @ [v]) # fs)"
| "complete v (ObjF ms k # fs) = (CommaOrEnd, ObjF (ms @ [(k, v)]) k # fs)"

fun close_array :: "frame list \<Rightarrow> pstate option" where
  "close_array (ArrF items # fs) = Some (complete (JArray items) fs)"
| "close_array fs = None"

fun close_object :: "frame list \<Rightarrow> pstate option" where
  "close_object (ObjF ms k # fs) = Some (complete (JObject ms) fs)"
| "close_object fs = None"

fun open_value :: "token \<Rightarrow> frame list \<Rightarrow> pstate option" where
  "open_value (TString s) fs = Some (complete (JString s) fs)"
| "open_value (TNumber n) fs = Some (complete (JNumber n) fs)"
| "open_value (TLiteral v) fs = Some (complete v fs)"
| "open_value TLBrack fs = Some (ValueOrEnd, ArrF [] # fs)"
| "open_value TLBrace fs = Some (KeyOrEnd, ObjF [] [] # fs)"
| "open_value t fs = None"

fun set_key :: "token \<Rightarrow> frame list \<Rightarrow> pstate option" where
  "set_key (TString k) (ObjF ms k0 # fs) = Some (Colon, ObjF ms k # fs)"
| "set_key t fs = None"

fun pstep :: "token \<Rightarrow> pstate \<Rightarrow> pstate option" where
  "pstep t (Value, fs) = open_value t fs"
| "pstep t (ValueOrEnd, fs) = (if t = TRBrack then close_array fs else open_value t fs)"
| "pstep t (KeyOrEnd, fs) = (if t = TRBrace then close_object fs else set_key t fs)"
| "pstep t (Key, fs) = set_key t fs"
| "pstep t (Colon, fs) = (if t = TColon then Some (Value, fs) else None)"
| "pstep t (CommaOrEnd, fs) =
     (if t = TComma then
        (case fs of
           [] \<Rightarrow> None
         | ArrF items # fs' \<Rightarrow> Some (Value, fs)
         | ObjF ms k # fs' \<Rightarrow> Some (Key, fs))
      else if t = TRBrack then close_array fs
      else if t = TRBrace then close_object fs
      else None)"
| "pstep t (Finished v, fs) = None"

fun prun :: "token list \<Rightarrow> pstate \<Rightarrow> json option" where
  "prun [] (Finished v, fs) = Some v"
| "prun [] (e, fs) = None"
| "prun (t # ts) st = (case pstep t st of None \<Rightarrow> None | Some st' \<Rightarrow> prun ts st')"

definition JSON_parse :: "string \<Rightarrow> json option" where
  "JSON_parse text = (case json_lex Idle text of None \<Rightarrow> None | Some ts \<Rightarrow> prun ts (Value, []))"

section \<open>Error records and the row loop\<close>

text \<open>
  Both error shapes carry \<^verbatim>\<open>type\<close> and \<^verbatim>\<open>message\<close>. The validators of
  \<^verbatim>\<open>utils/validation.ts\<close> and \<^verbatim>\<open>app/page.tsx\<close> add \<^verbatim>\<open>row\<close> and \<^verbatim>\<open>column\<close>; the
  validators of the Home component add \<^verbatim>\<open>entity\<close>, \<^verbatim>\<open>rowIndex\<close> and \<^verbatim>\<open>field\<close>.
\<close>

record error_base =
  type :: string
  message :: string

record ValidationError = error_base +
  row :: int
  column :: string

record HomeValidationError = error_base +
  entity :: string
  rowIndex :: nat
  field :: string

text \<open>\<^verbatim>\<open>xs.forEach((x, index) => ...)\<close>, the body threading the variables it mutates.\<close>

fun forEach :: "('a \<Rightarrow> nat \<Rightarrow> 's \<Rightarrow> 's) \<Rightarrow> 'a list \<Rightarrow> nat \<Rightarrow> 's \<Rightarrow> 's" where
  "forEach f [] index s = s"
| "forEach f (x # xs) index s = forEach f xs (Suc index) (f x index s)"

text \<open>\<^verbatim>\<open>errors.push(e)\<close>\<close>

definition push :: "'e \<Rightarrow> 'e list \<Rightarrow> 'e list" where
  "push e errors = errors @ [e]"

section \<open>\<^verbatim>\<open>utils/validation.ts\<close>\<close>

definition validateClients_row ::
  "row \<Rightarrow> nat \<Rightarrow> cell set \<times> ValidationError list \<Rightarrow> cell set \<times> ValidationError list" where
  "validateClients_row client index = (\<lambda>(ids, errors).
     let errors1 =
           (if get client ''ClientID'' \<in> ids
            then push \<lparr>type = ''duplicate_id'',
                       message = ''Duplicate ClientID: '' @ js_String (get client ''ClientID''),
                       row = int index + 1,
                       column = ''ClientID''\<rparr> errors
            else errors);
         ids1 = insert (get client ''ClientID'') ids;
         errors2 =
           (if js_lt (get client ''PriorityLevel'') 1 \<or> js_gt (get client ''PriorityLevel'') 5
            then push \<lparr>type = ''out_of_range'',
                       message = ''PriorityLevel must be 1-5, got: ''
                           @ js_String (get client ''PriorityLevel''),
                       row = int index + 1,
                       column = ''PriorityLevel''\<rparr> errors1
            else errors1);
         errors3 =
           (if \<not> truthy (get client ''ClientID'') \<or> \<not> truthy (get client ''ClientName'')
            then push \<lparr>type = ''missing_required'',
                       message = ''Missing required ClientID or ClientName'',
                       row = int index + 1,
                       column = ''ClientID/ClientName''\<rparr> errors2
            else errors2);
         errors4 =
           (if truthy (get client ''AttributesJSON'')
               \<and> JSON_parse (js_String (get client ''AttributesJSON'')) = None
            then push \<lparr>type = ''invalid_json'',
                       message = ''Invalid JSON in AttributesJSON'',
                       row = int index + 1,
                       column = ''AttributesJSON''\<rparr> errors3
            else errors3)
     in (ids1, errors4))"

definition validateClients :: "row list \<Rightarrow> ValidationError list" where
  "validateClients data = snd (forEach validateClients_row data 0 ({}, []))"

section \<open>\<^verbatim>\<open>app/page.tsx\<close>\<close>

record page_state =
  clientsData :: "row list"
  workersData :: "row list"
  tasksData :: "row list"
  validationErrors :: "ValidationError list"

text \<open>The state the component starts from (\<^verbatim>\<open>useState([])\<close> four times).\<close>

definition initial_page_state :: page_state where
  "initial_page_state =
     \<lparr>clientsData = [], workersData = [], tasksData = [], validationErrors = []\<rparr>"

definition page_clients_row ::
  "row \<Rightarrow> nat \<Rightarrow> cell set \<times> ValidationError list \<Rightarrow> cell set \<times> ValidationError list" where
  "page_clients_row client index = (\<lambda>(ids, errors).
     let errors1 =
           (if get client ''ClientID'' \<in> ids
            then push \<lparr>type = ''duplicate_id'',
                       message = ''Duplicate ClientID: '' @ js_String (get client ''ClientID''),
                       row = int index + 1,
                       column = ''ClientID''\<rparr> errors
            else errors);
         ids1 = insert (get client ''ClientID'') ids;
         errors2 =
           (if js_lt (get client ''PriorityLevel'') 1 \<or> js_gt (get client ''PriorityLevel'') 5
            then push \<lparr>type = ''out_of_range'',
                       message = ''PriorityLevel must be 1-5, got: ''
                           @ js_String (get client ''PriorityLevel''),
                       row = int index + 1,
                       column = ''PriorityLevel''\<rparr> errors1
            else errors1);
         errors3 =
           (if \<not> truthy (get client ''ClientID'') \<or> \<not> truthy (get client ''ClientName'')
            then push \<lparr>type = ''missing_required'',
                       message = ''Missing required ClientID or ClientName'',
                       row = int index + 1,
                       column = ''ClientID/ClientName''\<rparr> errors2
            else errors2)
     in (ids1, errors3))"

definition page_workers_row ::
  "row \<Rightarrow> nat \<Rightarrow> cell set \<times> ValidationError list \<Rightarrow> cell set \<times> ValidationError list" where
  "page_workers_row worker index = (\<lambda>(ids, errors).
     let errors1 =
           (if get worker ''WorkerID'' \<in> ids
            then push \<lparr>type = ''duplicate_id'',
                       message = ''Duplicate WorkerID: '' @ js_String (get worker ''WorkerID''),
                       row = int index + 1,
                       column = ''WorkerID''\<rparr> errors
            else errors);
         ids1 = insert (get worker ''WorkerID'') ids;
         errors2 =
           (if \<not> truthy (get worker ''WorkerID'') \<or> \<not> truthy (get worker ''WorkerName'')
            then push \<lparr>type = ''missing_required'',
                       message = ''Missing required WorkerID or WorkerName'',
                       row = int index + 1,
                       column = ''WorkerID/WorkerName''\<rparr> errors1
            else errors1);
         errors3 =
           (if js_lt (get worker ''MaxLoadPerPhase'') 1
            then push \<lparr>type = ''out_of_range'',
                       message = ''MaxLoadPerPhase must be >= 1'',
                       row = int index + 1,
                       column = ''MaxLoadPerPhase''\<rparr> errors2
            else errors2)
     in (ids1, errors3))"

definition page_tasks_row ::
  "row \<Rightarrow> nat \<Rightarrow> cell set \<times> ValidationError list \<Rightarrow> cell set \<times> ValidationError list" where
  "page_tasks_row task index = (\<lambda>(ids, errors).
     let errors1 =
           (if get task ''TaskID'' \<in> ids
            then push \<lparr>type = ''duplicate_id'',
                       message = ''Duplicate TaskID: '' @ js_String (get task ''TaskID''),
                       row = int index + 1,
                       column = ''TaskID''\<rparr> errors
            else errors);
         ids1 = insert (get task ''TaskID'') ids;
         errors2 =
           (if js_lt (get task ''Duration'') 1
            then push \<lparr>type = ''out_of_range'',
                       message = ''Duration must be >= 1'',
                       row = int index + 1,
                       column = ''Duration''\<rparr> errors1
            else errors1);
         errors3 =
           (if \<not> truthy (get task ''TaskID'') \<or> \<not> truthy (get task ''TaskName'')
            then push \<lparr>type = ''missing_required'',
                       message = ''Missing required TaskID or TaskName'',
                       row = int index + 1,
                       column = ''TaskID/TaskName''\<rparr> errors2
            else errors2)
     in (ids1, errors3))"

text \<open>
  Each page validator builds its \<^verbatim>\<open>errors\<close> array with the loop and ends with
  \<^verbatim>\<open>setValidationErrors(prev => [...prev.filter(e => e.type.indexOf(tag) === -1), ...errors])\<close>
  where the tag is \<^verbatim>\<open>'client'\<close>, \<^verbatim>\<open>'worker'\<close> or \<^verbatim>\<open>'task'\<close>.
\<close>

definition setValidationErrors ::
  "(ValidationError list \<Rightarrow> ValidationError list) \<Rightarrow> page_state \<Rightarrow> page_state" where
  "setValidationErrors f st = st\<lparr>validationErrors := f (validationErrors st)\<rparr>"

definition page_clients_errors :: "row list \<Rightarrow> ValidationError list" where
  "page_clients_errors data = snd (forEach page_clients_row data 0 ({}, []))"

definition validateClients_page :: "row list \<Rightarrow> page_state \<Rightarrow> page_state" where
  "validateClients_page data =
     (let errors = page_clients_errors data
      in setValidationErrors (\<lambda>prev. filter (\<lambda>e. indexOf (type e) ''client'' = - 1) prev @ errors))"

definition page_workers_errors :: "row list \<Rightarrow> ValidationError list" where
  "page_workers_errors data = snd (forEach page_workers_row data 0 ({}, []))"

definition validateWorkers_page :: "row list \<Rightarrow> page_state \<Rightarrow> page_state" where
  "validateWorkers_page data =
     (let errors = page_workers_errors data
      in setValidationErrors (\<lambda>prev. filter (\<lambda>e. indexOf (type e) ''worker'' = - 1) prev @ errors))"

definition page_tasks_errors :: "row list \<Rightarrow> ValidationError list" where
  "page_tasks_errors data = snd (forEach page_tasks_row data 0 ({}, []))"

definition validateTasks_page :: "row list \<Rightarrow> page_state \<Rightarrow> page_state" where
  "validateTasks_page data =
     (let errors = page_tasks_errors data
      in setValidationErrors (\<lambda>prev. filter (\<lambda>e. indexOf (type e) ''task'' = - 1) prev @ errors))"

text \<open>
  The upload handler, once the file is decoded: store the rows, then validate them. The
  call to the remote validation service that follows is not part of the model.
\<close>

datatype DatasetType = Clients | Workers | Tasks

fun handleFileUpload :: "row list \<Rightarrow> DatasetType \<Rightarrow> page_state \<Rightarrow> page_state" where
  "handleFileUpload data Clients st = validateClients_page data (st\<lparr>clientsData := data\<rparr>)"
| "handleFileUpload data Workers st = validateWorkers_page data (st\<lparr>workersData := data\<rparr>)"
| "handleFileUpload data Tasks st = validateTasks_page data (st\<lparr>tasksData := data\<rparr>)"

section \<open>The Home component: validators with cross-dataset checks\<close>

text \<open>
  The source of the \<^verbatim>\<open>Home\<close> component (in the sources it follows the first component
  of \<^verbatim>\<open>components/ui/button.tsx\<close>) holds \<^verbatim>\<open>validateClients(clients, tasks)\<close>,
  \<^verbatim>\<open>validateWorkers(workers)\<close>, \<^verbatim>\<open>validateTasks(tasks, workers)\<close> and the
  \<^verbatim>\<open>useMemo\<close> block that runs the three of them over the datasets of the state.
\<close>

text \<open>\<^verbatim>\<open>String(v).split(",").map((x) => x.trim())\<close>\<close>

definition split_trim :: "cell \<Rightarrow> string list" where
  "split_trim v = map trim (split CHR '','' (js_String v))"

definition validateClients_home_row ::
  "cell set \<Rightarrow> row \<Rightarrow> nat \<Rightarrow> cell set \<times> HomeValidationError list
     \<Rightarrow> cell set \<times> HomeValidationError list" where
  "validateClients_home_row taskIDs r i = (\<lambda>(ids, errors).
     let errors1 =
           (if get r ''ClientID'' \<in> ids
            then push \<lparr>type = ''DuplicateID'',
                       message = ''Duplicate ClientID: '' @ js_String (get r ''ClientID''),
                       entity = ''clients'', rowIndex = i, field = ''ClientID''\<rparr> errors
            else errors);
         ids1 = insert (get r ''ClientID'') ids;
         errors2 =
           (if truthy (get r ''PriorityLevel'')
               \<and> (js_lt (get r ''PriorityLevel'') 1 \<or> js_gt (get r ''PriorityLevel'') 5)
            then push \<lparr>type = ''OutOfRange'',
                       message = ''PriorityLevel must be 1-5'',
                       entity = ''clients'', rowIndex = i, field = ''PriorityLevel''\<rparr> errors1
            else errors1);
         errors3 =
           (if truthy (get r ''RequestedTaskIDs'')
            then forEach
                   (\<lambda>tid k errs.
                      if tid \<noteq> [] \<and> Str tid \<notin> taskIDs
                      then push \<lparr>type = ''UnknownReference'',
                                 message = ''RequestedTaskID '' @ tid @ '' not found in tasks'',
                                 entity = ''clients'', rowIndex = i,
                                     field = ''RequestedTaskIDs''\<rparr> errs
                      else errs)
                   (split_trim (get r ''RequestedTaskIDs'')) 0 errors2
            else errors2);
         errors4 =
           (if truthy (get r ''AttributesJSON'')
               \<and> JSON_parse (js_String (get r ''AttributesJSON'')) = None
            then push \<lparr>type = ''BrokenJSON'',
                       message = ''AttributesJSON is not valid JSON'',
                       entity = ''clients'', rowIndex = i, field = ''AttributesJSON''\<rparr> errors3
            else errors3)
     in (ids1, errors4))"

definition validateClients_home :: "row list \<Rightarrow> row list \<Rightarrow> HomeValidationError list" where
  "validateClients_home cs ts =
     (let taskIDs = set (map (\<lambda>t. get t ''TaskID'') ts)
      in snd (forEach (validateClients_home_row taskIDs) cs 0 ({}, [])))"

text \<open>
  \<^verbatim>\<open>AvailableSlots\<close>: a string has its single quotes replaced by double quotes and is
  parsed; anything else is taken as it is. The \<^verbatim>\<open>try\<close> block throws unless the result
  is an array whose elements are all numbers.
\<close>

definition replace_quotes :: "string \<Rightarrow> string" where
  "replace_quotes s = map (\<lambda>c. if c = CHR 0x27 then dquote else c) s"

fun is_number :: "json \<Rightarrow> bool" where
  "is_number (JNumber n) = True"
| "is_number v = False"

fun numeric_array :: "json \<Rightarrow> bool" where
  "numeric_array (JArray items) = list_all is_number items"
| "numeric_array v = False"

fun slots_accepted :: "cell \<Rightarrow> bool" where
  "slots_accepted (Str s) =
     (case JSON_parse (replace_quotes s) of None \<Rightarrow> False | Some slots \<Rightarrow> numeric_array slots)"
| "slots_accepted v = False"

definition validateWorkers_home_row ::
  "row \<Rightarrow> nat \<Rightarrow> cell set \<times> HomeValidationError list \<Rightarrow> cell set \<times> HomeValidationError list" where
  "validateWorkers_home_row r i = (\<lambda>(ids, errors).
     let errors1 =
           (if get r ''WorkerID'' \<in> ids
            then push \<lparr>type = ''DuplicateID'',
                       message = ''Duplicate WorkerID: '' @ js_String (get r ''WorkerID''),
                       entity = ''workers'', rowIndex = i, field = ''WorkerID''\<rparr> errors
            else errors);
         ids1 = insert (get r ''WorkerID'') ids;
         errors2 =
           (if truthy (get r ''AvailableSlots'') \<and> \<not> slots_accepted (get r ''AvailableSlots'')
            then push \<lparr>type = ''MalformedList'',
                       message = ''AvailableSlots must be a numeric array'',
                       entity = ''workers'', rowIndex = i, field = ''AvailableSlots''\<rparr> errors1
            else errors1);
         errors3 =
           (if truthy (get r ''MaxLoadPerPhase'') \<and> isNaN (Number (get r ''MaxLoadPerPhase''))
            then push \<lparr>type = ''MalformedValue'',
                       message = ''MaxLoadPerPhase must be a number'',
                       entity = ''workers'', rowIndex = i, field = ''MaxLoadPerPhase''\<rparr> errors2
            else errors2)
     in (ids1, errors3))"

definition validateWorkers_home :: "row list \<Rightarrow> HomeValidationError list" where
  "validateWorkers_home ws = snd (forEach validateWorkers_home_row ws 0 ({}, []))"

text \<open>The two grammars of \<^verbatim>\<open>PreferredPhases\<close>:
  \<^verbatim>\<open>/^\[\d+(,\d+)*\]$/\<close> and \<^verbatim>\<open>/^\d+-\d+$/\<close>.\<close>

definition digits1 :: "string \<Rightarrow> bool" where
  "digits1 s = (s \<noteq> [] \<and> list_all is_digit s)"

definition matches_list :: "string \<Rightarrow> bool" where
  "matches_list s =
     (case s of
        [] \<Rightarrow> False
      | c # rest \<Rightarrow>
          c = CHR ''['' \<and> rest \<noteq> [] \<and> last rest = CHR '']''
          \<and> list_all digits1 (split CHR '','' (butlast rest)))"

definition matches_range :: "string \<Rightarrow> bool" where
  "matches_range s =
     (let a = takeWhile is_digit s; r = dropWhile is_digit s
      in a \<noteq> [] \<and> r \<noteq> [] \<and> hd r = CHR ''-'' \<and> digits1 (tl r))"

definition validateTasks_home_row ::
  "string set \<Rightarrow> row \<Rightarrow> nat \<Rightarrow> cell set \<times> HomeValidationError list
     \<Rightarrow> cell set \<times> HomeValidationError list" where
  "validateTasks_home_row workerSkills r i = (\<lambda>(ids, errors).
     let errors1 =
           (if get r ''TaskID'' \<in> ids
            then push \<lparr>type = ''DuplicateID'',
                       message = ''Duplicate TaskID: '' @ js_String (get r ''TaskID''),
                       entity = ''tasks'', rowIndex = i, field = ''TaskID''\<rparr> errors
            else errors);
         ids1 = insert (get r ''TaskID'') ids;
         errors2 =
           (if truthy (get r ''DurationPhases'')
               \<and> num_less (Number (get r ''DurationPhases'')) (Fin 1)
            then push \<lparr>type = ''OutOfRange'',
                       message = ''DurationPhases must be >= 1'',
                       entity = ''tasks'', rowIndex = i, field = ''DurationPhases''\<rparr> errors1
            else errors1);
         errors3 =
           (if truthy (get r ''RequiredSkills'')
            then forEach
                   (\<lambda>skill k errs.
                      if skill \<noteq> [] \<and> skill \<notin> workerSkills
                      then push \<lparr>type = ''SkillCoverage'',
                                 message = ''RequiredSkill '' @ skill
                                     @ '' not found in any worker'',
                                 entity = ''tasks'', rowIndex = i, field = ''RequiredSkills''\<rparr> errs
                      else errs)
                   (split_trim (get r ''RequiredSkills'')) 0 errors2
            else errors2);
         errors4 =
           (if truthy (get r ''PreferredPhases'')
               \<and> \<not> (matches_list (js_String (get r ''PreferredPhases''))
                    \<or> matches_range (js_String (get r ''PreferredPhases'')))
            then push \<lparr>type = ''MalformedList'',
                       message = ''PreferredPhases must be a list [1,2] or range 1-3'',
                       entity = ''tasks'', rowIndex = i, field = ''PreferredPhases''\<rparr> errors3
            else errors3);
         errors5 =
           (if truthy (get r ''MaxConcurrent'') \<and> isNaN (Number (get r ''MaxConcurrent''))
            then push \<lparr>type = ''MalformedValue'',
                       message = ''MaxConcurrent must be a number'',
                       entity = ''tasks'', rowIndex = i, field = ''MaxConcurrent''\<rparr> errors4
            else errors4)
     in (ids1, errors5))"

text \<open>\<^verbatim>\<open>new Set(workers.flatMap((w) => String(w.Skills || "").split(",").map((s) => s.trim())))\<close>\<close>

definition worker_skills :: "row list \<Rightarrow> string set" where
  "worker_skills ws =
     set (concat (map (\<lambda>w. split_trim (if truthy (get w ''Skills'') then get w ''Skills''
         else Str [])) ws))"

definition validateTasks_home :: "row list \<Rightarrow> row list \<Rightarrow> HomeValidationError list" where
  "validateTasks_home ts ws =
     (let workerSkills = worker_skills ws
      in snd (forEach (validateTasks_home_row workerSkills) ts 0 ({}, [])))"

text \<open>
  The state of the component: each dataset is \<^verbatim>\<open>null\<close> until a file is uploaded. The
  \<^verbatim>\<open>useMemo\<close> block recomputes the error list from the datasets and replaces it.
\<close>

record home_state =
  clients :: "row list option"
  workers :: "row list option"
  tasks :: "row list option"
  error :: "string option"
  homeValidationErrors :: "HomeValidationError list"

definition initial_home_state :: home_state where
  "initial_home_state =
     \<lparr>clients = None, workers = None, tasks = None, error = None, homeValidationErrors = []\<rparr>"

text \<open>\<^verbatim>\<open>x ?? []\<close>\<close>

definition or_empty :: "row list option \<Rightarrow> row list" where
  "or_empty x = (case x of None \<Rightarrow> [] | Some rows \<Rightarrow> rows)"

definition run_validations :: "home_state \<Rightarrow> home_state" where
  "run_validations st =
     (let errors0 = [];
          errors1 = (case clients st of
                       None \<Rightarrow> errors0
                     | Some cs \<Rightarrow> errors0 @ validateClients_home cs (or_empty (tasks st)));
          errors2 = (case workers st of
                       None \<Rightarrow> errors1
                     | Some ws \<Rightarrow> errors1 @ validateWorkers_home ws);
          errors3 = (case tasks st of
                       None \<Rightarrow> errors2
                     | Some ts \<Rightarrow> errors2 @ validateTasks_home ts (or_empty (workers st)))
      in st\<lparr>homeValidationErrors := errors3\<rparr>)"

text \<open>The upload handler, once the file is decoded: the rows are stored unless a
  required header is missing from the first row.\<close>

fun requiredHeaders :: "DatasetType \<Rightarrow> string list" where
  "requiredHeaders Clients = [''ClientID'']"
| "requiredHeaders Workers = [''WorkerID'']"
| "requiredHeaders Tasks = [''TaskID'', ''TaskName'']"

fun type_name :: "DatasetType \<Rightarrow> string" where
  "type_name Clients = ''clients''"
| "type_name Workers = ''workers''"
| "type_name Tasks = ''tasks''"

fun join :: "string \<Rightarrow> string list \<Rightarrow> string" where
  "join sep [] = []"
| "join sep [x] = x"
| "join sep (x # y # ys) = x @ sep @ join sep (y # ys)"

definition handleUpload :: "DatasetType \<Rightarrow> row list \<Rightarrow> home_state \<Rightarrow> home_state" where
  "handleUpload ty rows st =
     (let headers = (if rows \<noteq> [] then map fst (hd rows) else []);
          missing = filter (\<lambda>h. h \<notin> set headers) (requiredHeaders ty)
      in if missing \<noteq> []
         then st\<lparr>error := Some (type_name ty @ '' file missing required headers: ''
             @ join '', '' missing)\<rparr>
         else (case ty of
                 Clients \<Rightarrow> st\<lparr>error := None, clients := Some rows\<rparr>
               | Workers \<Rightarrow> st\<lparr>error := None, workers := Some rows\<rparr>
               | Tasks \<Rightarrow> st\<lparr>error := None, tasks := Some rows\<rparr>))"

section \<open>The built-ins on sample inputs\<close>

text \<open>The models of the JavaScript built-ins, run on inputs whose results are known.\<close>

lemma Number_examples:
  "Number (Str ''6'') = Fin 6"
  "Number (Str '' 3 '') = Fin 3"
  "Number (Str '''') = Fin 0"
  "Number (Str ''abc'') = NaN"
  "Number (Str ''12abc'') = NaN"
  "Number (Str ''-1'') = Fin (- 1)"
  "Number (Str ''1e3'') = Fin 1000"
  "Number (Str ''0x10'') = Fin 16"
  "Number (Str ''-Infinity'') = NegInf"
  "Number Undefined = NaN"
  "Number (Num 0) = Fin 0"
  by code_simp+

lemma String_examples:
  "js_String (Num 0) = ''0''"
  "js_String (Num 1205) = ''1205''"
  "js_String (Num (- 7)) = ''-7''"
  "js_String Undefined = ''undefined''"
  by code_simp+

lemma split_trim_examples:
  "split_trim (Str ''plumbing,electrical'') = [''plumbing'', ''electrical'']"
  "split_trim (Str '' T1 , T9,'') = [''T1'', ''T9'', '''']"
  "split_trim (Str '''') = ['''']"
  "split_trim (Num 42) = [''42'']"
  by code_simp+

lemma indexOf_examples:
  "indexOf ''ai_client_error'' ''client'' = 3"
  "indexOf ''duplicate_id'' ''client'' = - 1"
  "indexOf ''abc'' '''' = 0"
  by code_simp+

lemma JSON_parse_examples:
  \<open>JSON_parse ''[1, 2.5e3, "x", true, null, {"k": []}]'' =
     Some (JArray [JNumber ''1'', JNumber ''2.5e3'', JString ''x'', JBool True, JNull,
                   JObject [(''k'', JArray [])]])\<close>
  \<open>JSON_parse '' 7 '' = Some (JNumber ''7'')\<close>
  \<open>JSON_parse '''' = None\<close>
  \<open>JSON_parse ''[1,]'' = None\<close>
  \<open>JSON_parse ''01'' = None\<close>
  \<open>JSON_parse ''{"a":1,}'' = None\<close>
  \<open>JSON_parse ''[1] 2'' = None\<close>
  \<open>JSON_parse ''nul'' = None\<close>
  by code_simp+

lemma slots_accepted_examples:
  "slots_accepted (Str ''[1,2,3]'')"
  "slots_accepted (Str ''[]'')"
  "\<not> slots_accepted (Str ''[1,x]'')"
  "\<not> slots_accepted (Str ''1,2'')"
  "\<not> slots_accepted (Str ''{}'')"
  "\<not> slots_accepted (Num 3)"
  by code_simp+

lemma PreferredPhases_examples:
  "matches_list ''[1,2,3]''"
  "matches_range ''2-4''"
  "\<not> matches_list ''[1,2''"
  "\<not> matches_range ''[1,2''"
  "\<not> matches_list ''[]''"
  "\<not> matches_range ''2-''"
  "\<not> matches_list ''[1, 2]''"
  by code_simp+

section \<open>What one pass of a loop body appends\<close>

text \<open>
  Each \<^verbatim>\<open>push\<close> under a test appends a list of at most one error, so a loop body
  appends the concatenation of such lists, in the order of its checks.
\<close>

lemma if_push: "(if c then push e es else es) = es @ (if c then [e] else [])"
  by (simp add: push_def)

lemma if_append: "(if c then es @ xs else es) = es @ (if c then xs else [])"
  by simp

lemma forEach_cond_push:
  "forEach (\<lambda>x k errs. if P x then push (mk x) errs else errs) xs j es = es @ map mk (filter P xs)"
  by (induction xs arbitrary: j es) (simp_all add: push_def)

lemma forEach_cond_append:
  "forEach (\<lambda>x k errs. errs @ (if P x then [mk x] else [])) xs j es = es @ map mk (filter P xs)"
  by (induction xs arbitrary: j es) simp_all

lemma validateClients_row_eq:
  "validateClients_row client index (ids, es) =
     (insert (get client ''ClientID'') ids,
      es @ (if get client ''ClientID'' \<in> ids
          then [\<lparr>type = ''duplicate_id'',
                       message = ''Duplicate ClientID: '' @ js_String (get client ''ClientID''),
                       row = int index + 1, column = ''ClientID''\<rparr>]
          else [])
       @ (if js_lt (get client ''PriorityLevel'') 1 \<or> js_gt (get client ''PriorityLevel'') 5
          then [\<lparr>type = ''out_of_range'',
                       message = ''PriorityLevel must be 1-5, got: ''
                           @ js_String (get client ''PriorityLevel''),
                       row = int index + 1, column = ''PriorityLevel''\<rparr>]
          else [])
       @ (if \<not> truthy (get client ''ClientID'') \<or> \<not> truthy (get client ''ClientName'')
          then [\<lparr>type = ''missing_required'',
                       message = ''Missing required ClientID or ClientName'',
                       row = int index + 1, column = ''ClientID/ClientName''\<rparr>]
          else [])
       @ (if truthy (get client ''AttributesJSON'')
           \<and> JSON_parse (js_String (get client ''AttributesJSON'')) = None
          then [\<lparr>type = ''invalid_json'',
                       message = ''Invalid JSON in AttributesJSON'',
                       row = int index + 1, column = ''AttributesJSON''\<rparr>]
          else []))"
  by (simp add: validateClients_row_def Let_def if_push forEach_cond_push forEach_cond_append
        if_append split del: if_split cong del: if_weak_cong)

lemma page_clients_row_eq:
  "page_clients_row client index (ids, es) =
     (insert (get client ''ClientID'') ids,
      es @ (if get client ''ClientID'' \<in> ids
          then [\<lparr>type = ''duplicate_id'',
                       message = ''Duplicate ClientID: '' @ js_String (get client ''ClientID''),
                       row = int index + 1, column = ''ClientID''\<rparr>]
          else [])
       @ (if js_lt (get client ''PriorityLevel'') 1 \<or> js_gt (get client ''PriorityLevel'') 5
          then [\<lparr>type = ''out_of_range'',
                       message = ''PriorityLevel must be 1-5, got: ''
                           @ js_String (get client ''PriorityLevel''),
                       row = int index + 1, column = ''PriorityLevel''\<rparr>]
          else [])
       @ (if \<not> truthy (get client ''ClientID'') \<or> \<not> truthy (get client ''ClientName'')
          then [\<lparr>type = ''missing_required'',
                       message = ''Missing required ClientID or ClientName'',
                       row = int index + 1, column = ''ClientID/ClientName''\<rparr>]
          else []))"
  by (simp add: page_clients_row_def Let_def if_push forEach_cond_push forEach_cond_append
        if_append split del: if_split cong del: if_weak_cong)

lemma page_workers_row_eq:
  "page_workers_row worker index (ids, es) =
     (insert (get worker ''WorkerID'') ids,
      es @ (if get worker ''WorkerID'' \<in> ids
          then [\<lparr>type = ''duplicate_id'',
                       message = ''Duplicate WorkerID: '' @ js_String (get worker ''WorkerID''),
                       row = int index + 1, column = ''WorkerID''\<rparr>]
          else [])
       @ (if \<not> truthy (get worker ''WorkerID'') \<or> \<not> truthy (get worker ''WorkerName'')
          then [\<lparr>type = ''missing_required'',
                       message = ''Missing required WorkerID or WorkerName'',
                       row = int index + 1, column = ''WorkerID/WorkerName''\<rparr>]
          else [])
       @ (if js_lt (get worker ''MaxLoadPerPhase'') 1
          then [\<lparr>type = ''out_of_range'',
                       message = ''MaxLoadPerPhase must be >= 1'',
                       row = int index + 1, column = ''MaxLoadPerPhase''\<rparr>]
          else []))"
  by (simp add: page_workers_row_def Let_def if_push forEach_cond_push forEach_cond_append
        if_append split del: if_split cong del: if_weak_cong)

lemma page_tasks_row_eq:
  "page_tasks_row task index (ids, es) =
     (insert (get task ''TaskID'') ids,
      es @ (if get task ''TaskID'' \<in> ids
          then [\<lparr>type = ''duplicate_id'',
                       message = ''Duplicate TaskID: '' @ js_String (get task ''TaskID''),
                       row = int index + 1, column = ''TaskID''\<rparr>]
          else [])
       @ (if js_lt (get task ''Duration'') 1
          then [\<lparr>type = ''out_of_range'',
                       message = ''Duration must be >= 1'',
                       row = int index + 1, column = ''Duration''\<rparr>]
          else [])
       @ (if \<not> truthy (get task ''TaskID'') \<or> \<not> truthy (get task ''TaskName'')
          then [\<lparr>type = ''missing_required'',
                       message = ''Missing required TaskID or TaskName'',
                       row = int index + 1, column = ''TaskID/TaskName''\<rparr>]
          else []))"
  by (simp add: page_tasks_row_def Let_def if_push forEach_cond_push forEach_cond_append
        if_append split del: if_split cong del: if_weak_cong)

lemma validateClients_home_row_eq:
  "validateClients_home_row taskIDs r i (ids, es) =
     (insert (get r ''ClientID'') ids,
      es @ (if get r ''ClientID'' \<in> ids
          then [\<lparr>type = ''DuplicateID'',
                       message = ''Duplicate ClientID: '' @ js_String (get r ''ClientID''),
                       entity = ''clients'', rowIndex = i, field = ''ClientID''\<rparr>]
          else [])
       @ (if truthy (get r ''PriorityLevel'') \<and> (js_lt (get r ''PriorityLevel'') 1
           \<or> js_gt (get r ''PriorityLevel'') 5)
          then [\<lparr>type = ''OutOfRange'',
                       message = ''PriorityLevel must be 1-5'',
                       entity = ''clients'', rowIndex = i, field = ''PriorityLevel''\<rparr>]
          else [])
       @ (if truthy (get r ''RequestedTaskIDs'')
          then map (\<lambda>tid. \<lparr>type = ''UnknownReference'',
                                         message = ''RequestedTaskID '' @ tid
                                             @ '' not found in tasks'',
                                         entity = ''clients'', rowIndex = i,
                                             field = ''RequestedTaskIDs''\<rparr>)
                 (filter (\<lambda>tid. tid \<noteq> [] \<and> Str tid \<notin> taskIDs) (split_trim (get r ''RequestedTaskIDs'')))
          else [])
       @ (if truthy (get r ''AttributesJSON'') \<and> JSON_parse (js_String (get r ''AttributesJSON'')) = None
          then [\<lparr>type = ''BrokenJSON'',
                       message = ''AttributesJSON is not valid JSON'',
                       entity = ''clients'', rowIndex = i, field = ''AttributesJSON''\<rparr>]
          else []))"
  by (simp add: validateClients_home_row_def Let_def if_push forEach_cond_push
        forEach_cond_append if_append split del: if_split cong del: if_weak_cong)

lemma validateWorkers_home_row_eq:
  "validateWorkers_home_row r i (ids, es) =
     (insert (get r ''WorkerID'') ids,
      es @ (if get r ''WorkerID'' \<in> ids
          then [\<lparr>type = ''DuplicateID'',
                       message = ''Duplicate WorkerID: '' @ js_String (get r ''WorkerID''),
                       entity = ''workers'', rowIndex = i, field = ''WorkerID''\<rparr>]
          else [])
       @ (if truthy (get r ''AvailableSlots'') \<and> \<not> slots_accepted (get r ''AvailableSlots'')
          then [\<lparr>type = ''MalformedList'',
                       message = ''AvailableSlots must be a numeric array'',
                       entity = ''workers'', rowIndex = i, field = ''AvailableSlots''\<rparr>]
          else [])
       @ (if truthy (get r ''MaxLoadPerPhase'') \<and> isNaN (Number (get r ''MaxLoadPerPhase''))
          then [\<lparr>type = ''MalformedValue'',
                       message = ''MaxLoadPerPhase must be a number'',
                       entity = ''workers'', rowIndex = i, field = ''MaxLoadPerPhase''\<rparr>]
          else []))"
  by (simp add: validateWorkers_home_row_def Let_def if_push forEach_cond_push
        forEach_cond_append if_append split del: if_split cong del: if_weak_cong)

lemma validateTasks_home_row_eq:
  "validateTasks_home_row workerSkills r i (ids, es) =
     (insert (get r ''TaskID'') ids,
      es @ (if get r ''TaskID'' \<in> ids
          then [\<lparr>type = ''DuplicateID'',
                       message = ''Duplicate TaskID: '' @ js_String (get r ''TaskID''),
                       entity = ''tasks'', rowIndex = i, field = ''TaskID''\<rparr>]
          else [])
       @ (if truthy (get r ''DurationPhases'') \<and> num_less (Number (get r ''DurationPhases'')) (Fin 1)
          then [\<lparr>type = ''OutOfRange'',
                       message = ''DurationPhases must be >= 1'',
                       entity = ''tasks'', rowIndex = i, field = ''DurationPhases''\<rparr>]
          else [])
       @ (if truthy (get r ''RequiredSkills'')
          then map (\<lambda>skill. \<lparr>type = ''SkillCoverage'',
                                           message = ''RequiredSkill '' @ skill
                                               @ '' not found in any worker'',
                                           entity = ''tasks'', rowIndex = i,
                                               field = ''RequiredSkills''\<rparr>)
                 (filter (\<lambda>skill. skill \<noteq> [] \<and> skill \<notin> workerSkills) (split_trim (get r ''RequiredSkills'')))
          else [])
       @ (if truthy (get r ''PreferredPhases'') \<and> \<not> (matches_list (js_String (get r
           ''PreferredPhases'')) \<or> matches_range (js_String (get r ''PreferredPhases'')))
          then [\<lparr>type = ''MalformedList'',
                       message = ''PreferredPhases must be a list [1,2] or range 1-3'',
                       entity = ''tasks'', rowIndex = i, field = ''PreferredPhases''\<rparr>]
          else [])
       @ (if truthy (get r ''MaxConcurrent'') \<and> isNaN (Number (get r ''MaxConcurrent''))
          then [\<lparr>type = ''MalformedValue'',
                       message = ''MaxConcurrent must be a number'',
                       entity = ''tasks'', rowIndex = i, field = ''MaxConcurrent''\<rparr>]
          else []))"
  by (simp add: validateTasks_home_row_def Let_def if_push forEach_cond_push
        forEach_cond_append if_append split del: if_split cong del: if_weak_cong)

section \<open>The row loop as a concatenation of per-row results\<close>

lemma upt_Suc_shift: "map g [0..<Suc n] = g 0 # map (\<lambda>k. g (Suc k)) [0..<n]"
  by (simp add: upt_conv_Cons map_Suc_upt [symmetric] del: upt_Suc)

lemma forEach_rows:
  assumes step: "\<And>x i ids es. f x i (ids, es) = (insert (key x) ids, es @ snd (f x i (ids, [])))"
  shows "forEach f xs i (ids, es) = (ids \<union> key ` set xs,
            es @ concat (map (\<lambda>k. snd (f (xs ! k) (i + k) (ids \<union> key ` set (take k xs),
                []))) [0..<length xs]))"
proof (induction xs arbitrary: i ids es)
  case Nil
  show ?case by simp
next
  case (Cons x xs)
  have "forEach f (x # xs) i (ids, es) = forEach f xs (Suc i) (insert (key x) ids, es
      @ snd (f x i (ids, [])))"
    by (simp add: step [of x i ids es])
  also have "\<dots> = (insert (key x) ids \<union> key ` set xs,
      (es @ snd (f x i (ids, []))) @
      concat (map (\<lambda>k. snd (f (xs ! k) (Suc i + k) (insert (key x) ids \<union> key ` set (take k xs),
          []))) [0..<length xs]))"
    by (rule Cons.IH)
  finally show ?case
    by (simp add: upt_Suc_shift del: upt_Suc)
qed

lemma concat_pick:
  assumes "i < n" and "\<And>k e. k < n \<Longrightarrow> e \<in> set (g k) \<Longrightarrow> P e = (k = i)"
  shows "filter P (concat (map g [0..<n])) = g i"
  using assms
proof (induction n)
  case 0
  then show ?case by simp
next
  case (Suc n)
  show ?case
  proof (cases "i = n")
    case True
    have "filter P (concat (map g [0..<n])) = []"
    proof -
      have "\<not> P e" if "k < n" "e \<in> set (g k)" for k e
        using Suc.prems(2) [of k e] that True by simp
      then show ?thesis by (auto simp: filter_empty_conv)
    qed
    moreover have "filter P (g n) = g n"
      using Suc.prems(2) [of n] True by (auto simp: filter_id_conv)
    ultimately show ?thesis using True by simp
  next
    case False
    then have "i < n" using Suc.prems(1) by simp
    then have "filter P (concat (map g [0..<n])) = g i"
      using Suc.IH Suc.prems(2) by simp
    moreover have "filter P (g n) = []"
      using Suc.prems(2) [of n] False by (auto simp: filter_empty_conv)
    ultimately show ?thesis by simp
  qed
qed

lemma concat_if_singleton:
  "concat (map (\<lambda>k. if D k then [e k] else []) ns) = map e (filter D ns)"
  by (induction ns) simp_all

lemma id_seen_before:
  assumes "i < length xs"
  shows "(key (xs ! i) \<in> key ` set (take i xs)) = (\<exists>j<i. key (xs ! j) = key (xs ! i))"
proof
  assume "key (xs ! i) \<in> key ` set (take i xs)"
  then obtain y where y: "y \<in> set (take i xs)" "key y = key (xs ! i)" by auto
  then obtain j where "j < length (take i xs)" "take i xs ! j = y"
    by (auto simp: in_set_conv_nth)
  then show "\<exists>j<i. key (xs ! j) = key (xs ! i)" using y assms by auto
next
  assume "\<exists>j<i. key (xs ! j) = key (xs ! i)"
  then obtain j where j: "j < i" "key (xs ! j) = key (xs ! i)" by blast
  then have "xs ! j \<in> set (take i xs)"
    using assms by (auto simp: in_set_conv_nth intro!: exI [of _ j])
  then have "key (xs ! j) \<in> key ` set (take i xs)" by (rule imageI)
  then show "key (xs ! i) \<in> key ` set (take i xs)" using j by simp
qed

text \<open>
  Every loop body adds the row's identifier to \<^verbatim>\<open>ids\<close>, appends to \<^verbatim>\<open>errors\<close> and
  tags what it appends with its own row. So a validator's result is the concatenation,
  row by row, of what the body appends, and the errors of row \<open>i\<close> are what the body
  appends there, given the identifiers of the earlier rows.
\<close>

lemma filter_if_single: "filter P (if c then [e] else []) = (if c \<and> P e then [e] else [])"
  by simp

lemma map_if_single: "map f (if c then [e] else []) = (if c then [f e] else [])"
  by simp

lemma filter_if_list: "filter P (if c then xs else []) = (if c then filter P xs else [])"
  by simp


lemma validateClients_step:
  "validateClients_row x i (ids, es) = (insert (get x ''ClientID'') ids, es
      @ snd (validateClients_row x i (ids, [])))"
  by (simp add: validateClients_row_eq)

lemma validateClients_tag:
  "e \<in> set (snd (validateClients_row x k (ids, []))) \<Longrightarrow> row e = int k + 1"
  by (auto simp: validateClients_row_eq split: if_splits)

lemma validateClients_concat:
  "validateClients data =
     concat (map (\<lambda>k. snd (validateClients_row (data ! k) k ((\<lambda>r. get r ''ClientID'') ` set (take k data), [])))
                 [0..<length data])"
  by (simp add: validateClients_def forEach_rows [where key = "\<lambda>r. get r ''ClientID''",
        OF validateClients_step])

lemma validateClients_at:
  assumes "i < length data"
  shows "filter (\<lambda>e. row e = int i + 1) (validateClients data) =
           snd (validateClients_row (data ! i) i ((\<lambda>r. get r ''ClientID'') ` set (take i data),
               []))"
  unfolding validateClients_concat
  by (rule concat_pick [OF assms]) (auto dest: validateClients_tag)

lemma page_clients_step:
  "page_clients_row x i (ids, es) = (insert (get x ''ClientID'') ids, es
      @ snd (page_clients_row x i (ids, [])))"
  by (simp add: page_clients_row_eq)

lemma page_clients_tag:
  "e \<in> set (snd (page_clients_row x k (ids, []))) \<Longrightarrow> row e = int k + 1"
  by (auto simp: page_clients_row_eq split: if_splits)

lemma page_clients_concat:
  "page_clients_errors data =
     concat (map (\<lambda>k. snd (page_clients_row (data ! k) k ((\<lambda>r. get r ''ClientID'') ` set (take k data), [])))
                 [0..<length data])"
  by (simp add: page_clients_errors_def forEach_rows [where key = "\<lambda>r. get r
        ''ClientID''", OF page_clients_step])

lemma page_clients_at:
  assumes "i < length data"
  shows "filter (\<lambda>e. row e = int i + 1) (page_clients_errors data) =
           snd (page_clients_row (data ! i) i ((\<lambda>r. get r ''ClientID'') ` set (take i data), []))"
  unfolding page_clients_concat
  by (rule concat_pick [OF assms]) (auto dest: page_clients_tag)

lemma page_workers_step:
  "page_workers_row x i (ids, es) = (insert (get x ''WorkerID'') ids, es
      @ snd (page_workers_row x i (ids, [])))"
  by (simp add: page_workers_row_eq)


lemma page_workers_concat:
  "page_workers_errors data =
     concat (map (\<lambda>k. snd (page_workers_row (data ! k) k ((\<lambda>r. get r ''WorkerID'') ` set (take k data), [])))
                 [0..<length data])"
  by (simp add: page_workers_errors_def forEach_rows [where key = "\<lambda>r. get r
        ''WorkerID''", OF page_workers_step])


lemma page_tasks_step:
  "page_tasks_row x i (ids, es) = (insert (get x ''TaskID'') ids, es @ snd (page_tasks_row x i (ids,
      [])))"
  by (simp add: page_tasks_row_eq)


lemma page_tasks_concat:
  "page_tasks_errors data =
     concat (map (\<lambda>k. snd (page_tasks_row (data ! k) k ((\<lambda>r. get r ''TaskID'') ` set (take k data),
         []))) [0..<length data])"
  by (simp add: page_tasks_errors_def forEach_rows [where key = "\<lambda>r. get r ''TaskID''", OF page_tasks_step])


lemma home_clients_step:
  "validateClients_home_row T x i (ids, es) = (insert (get x ''ClientID'') ids, es
      @ snd (validateClients_home_row T x i (ids, [])))"
  by (simp add: validateClients_home_row_eq)

lemma home_clients_tag:
  "e \<in> set (snd (validateClients_home_row T x k (ids, []))) \<Longrightarrow> rowIndex e = k"
  by (auto simp: validateClients_home_row_eq split: if_splits)

lemma home_clients_concat:
  "validateClients_home data ts =
     concat (map (\<lambda>k. snd (validateClients_home_row ((\<lambda>t. get t ''TaskID'') ` set ts) (data ! k) k
         ((\<lambda>r. get r ''ClientID'') ` set (take k data), []))) [0..<length data])"
  by (simp add: validateClients_home_def forEach_rows [where f = "validateClients_home_row
        ((\<lambda>t. get t ''TaskID'') ` set ts)" and key = "\<lambda>r. get r ''ClientID''",
        OF home_clients_step])

lemma home_clients_at:
  assumes "i < length data"
  shows "filter (\<lambda>e. rowIndex e = i) (validateClients_home data ts) =
           snd (validateClients_home_row ((\<lambda>t. get t ''TaskID'') ` set ts) (data ! i) i ((\<lambda>r. get r
               ''ClientID'') ` set (take i data), []))"
  unfolding home_clients_concat
  by (rule concat_pick [OF assms]) (auto dest: home_clients_tag)

lemma home_workers_step:
  "validateWorkers_home_row x i (ids, es) = (insert (get x ''WorkerID'') ids, es
      @ snd (validateWorkers_home_row x i (ids, [])))"
  by (simp add: validateWorkers_home_row_eq)


lemma home_workers_concat:
  "validateWorkers_home data =
     concat (map (\<lambda>k. snd (validateWorkers_home_row (data ! k) k ((\<lambda>r. get r ''WorkerID'') ` set
         (take k data), []))) [0..<length data])"
  by (simp add: validateWorkers_home_def forEach_rows [where key = "\<lambda>r. get r
        ''WorkerID''", OF home_workers_step])


lemma home_tasks_step:
  "validateTasks_home_row S x i (ids, es) = (insert (get x ''TaskID'') ids, es
      @ snd (validateTasks_home_row S x i (ids, [])))"
  by (simp add: validateTasks_home_row_eq)


lemma home_tasks_concat:
  "validateTasks_home data ws =
     concat (map (\<lambda>k. snd (validateTasks_home_row (worker_skills ws) (data ! k) k ((\<lambda>r. get r
         ''TaskID'') ` set (take k data), []))) [0..<length data])"
  by (simp add: validateTasks_home_def forEach_rows [where f = "validateTasks_home_row
        (worker_skills ws)" and key = "\<lambda>r. get r ''TaskID''", OF home_tasks_step])


section \<open>Duplicate identifiers\<close>

lemma flagged_rows:assumes errs: "errs = concat (map g [0..<length data])"
    and pick: "\<And>k. k < length data \<Longrightarrow>
        map tag (filter P (g k)) = (if key (data ! k) \<in> key ` set (take k data) then [t k] else [])"
  shows "map tag (filter P errs) =
           map t (filter (\<lambda>i. \<exists>j<i. key (data ! j) = key (data ! i)) [0..<length data])"
proof -
  let ?ns = "[0..<length data]"
  have "map tag (filter P errs) = concat (map (\<lambda>k. map tag (filter P (g k))) ?ns)"
    by (simp add: errs filter_concat map_concat comp_def)
  also have "\<dots> = concat (map (\<lambda>k. if key (data ! k) \<in> key ` set (take k data) then [t k]
      else []) ?ns)"
    by (rule arg_cong [where f = concat], rule map_cong) (simp_all add: pick)
  also have "\<dots> = map t (filter (\<lambda>k. key (data ! k) \<in> key ` set (take k data)) ?ns)"
    by (rule concat_if_singleton)
  also have "filter (\<lambda>k. key (data ! k) \<in> key ` set (take k data)) ?ns =
             filter (\<lambda>i. \<exists>j<i. key (data ! j) = key (data ! i)) ?ns"
    by (rule filter_cong) (simp_all add: id_seen_before)
  finally show ?thesis .
qed

lemma validateClients_flagged:
  "map row (filter (\<lambda>e. type e = ''duplicate_id'') (validateClients data)) = map (\<lambda>i. int i + 1)
       (filter (\<lambda>i. \<exists>j<i. get (data ! j) ''ClientID'' = get (data ! i) ''ClientID'') [0..<length data])"
  by (rule flagged_rows [where key = "\<lambda>r. get r ''ClientID''", OF validateClients_concat])
     (simp add: validateClients_row_eq filter_if_single map_if_single filter_if_list filter_map comp_def
        split del: if_split cong del: if_weak_cong)

lemma page_clients_flagged:
  "map row (filter (\<lambda>e. type e = ''duplicate_id'') (page_clients_errors data)) = map (\<lambda>i. int i + 1)
       (filter (\<lambda>i. \<exists>j<i. get (data ! j) ''ClientID'' = get (data ! i) ''ClientID'') [0..<length data])"
  by (rule flagged_rows [where key = "\<lambda>r. get r ''ClientID''", OF page_clients_concat])
     (simp add: page_clients_row_eq filter_if_single map_if_single filter_if_list filter_map comp_def
        split del: if_split cong del: if_weak_cong)

lemma page_workers_flagged:
  "map row (filter (\<lambda>e. type e = ''duplicate_id'') (page_workers_errors data)) = map (\<lambda>i. int i + 1)
       (filter (\<lambda>i. \<exists>j<i. get (data ! j) ''WorkerID'' = get (data ! i) ''WorkerID'') [0..<length data])"
  by (rule flagged_rows [where key = "\<lambda>r. get r ''WorkerID''", OF page_workers_concat])
     (simp add: page_workers_row_eq filter_if_single map_if_single filter_if_list filter_map comp_def
        split del: if_split cong del: if_weak_cong)

lemma page_tasks_flagged:
  "map row (filter (\<lambda>e. type e = ''duplicate_id'') (page_tasks_errors data)) = map (\<lambda>i. int i + 1)
       (filter (\<lambda>i. \<exists>j<i. get (data ! j) ''TaskID'' = get (data ! i) ''TaskID'') [0..<length data])"
  by (rule flagged_rows [where key = "\<lambda>r. get r ''TaskID''", OF page_tasks_concat])
     (simp add: page_tasks_row_eq filter_if_single map_if_single filter_if_list filter_map comp_def
        split del: if_split cong del: if_weak_cong)

lemma home_clients_flagged:
  "map rowIndex (filter (\<lambda>e. type e = ''DuplicateID'') (validateClients_home data ts)) = map (\<lambda>i. i)
       (filter (\<lambda>i. \<exists>j<i. get (data ! j) ''ClientID'' = get (data ! i) ''ClientID'') [0..<length data])"
  by (rule flagged_rows [where key = "\<lambda>r. get r ''ClientID''", OF home_clients_concat])
     (simp add: validateClients_home_row_eq filter_if_single map_if_single filter_if_list filter_map comp_def
        split del: if_split cong del: if_weak_cong)

lemma home_workers_flagged:
  "map rowIndex (filter (\<lambda>e. type e = ''DuplicateID'') (validateWorkers_home data)) = map (\<lambda>i. i)
       (filter (\<lambda>i. \<exists>j<i. get (data ! j) ''WorkerID'' = get (data ! i) ''WorkerID'') [0..<length data])"
  by (rule flagged_rows [where key = "\<lambda>r. get r ''WorkerID''", OF home_workers_concat])
     (simp add: validateWorkers_home_row_eq filter_if_single map_if_single filter_if_list filter_map comp_def
        split del: if_split cong del: if_weak_cong)

lemma home_tasks_flagged:
  "map rowIndex (filter (\<lambda>e. type e = ''DuplicateID'') (validateTasks_home data ws)) = map (\<lambda>i. i)
       (filter (\<lambda>i. \<exists>j<i. get (data ! j) ''TaskID'' = get (data ! i) ''TaskID'') [0..<length data])"
  by (rule flagged_rows [where key = "\<lambda>r. get r ''TaskID''", OF home_tasks_concat])
     (simp add: validateTasks_home_row_eq filter_if_single map_if_single filter_if_list filter_map comp_def
        split del: if_split cong del: if_weak_cong)

lemma two_rows_flagged:
  assumes "get c1 ''ClientID'' = get c2 ''ClientID''"
  shows "map rowIndex (filter (\<lambda>e. type e = ''DuplicateID'') 
           (validateClients_home [c1, c2] ts)) = [1]
       \<and> map row (filter (\<lambda>e. type e = ''duplicate_id'') (validateClients [c1, c2])) = [2]
       \<and> map row (filter (\<lambda>e. type e = ''duplicate_id'') (page_clients_errors [c1, c2])) = [2]"
  using assms
  by (simp add: home_clients_flagged validateClients_flagged page_clients_flagged)

text \<open>
  Claim C1. For two Client rows with equal ClientID every client validator emits exactly
  one duplicate error, attached to the second row, the row of index 1: the Home validator
  records \<^verbatim>\<open>rowIndex: i\<close>, which is 1 there, and the validators of
  \<^verbatim>\<open>utils/validation.ts\<close> and \<^verbatim>\<open>app/page.tsx\<close> record \<^verbatim>\<open>row: index + 1\<close>, the row's
  number counted from 1, which is 2. In general the errors of the duplicate kind are
  attached, one each and in row order, to exactly the rows whose identifier already
  occurs in an earlier row: the first occurrence of an identifier is never flagged and
  every later occurrence is. Validation only produces errors: the stored dataset keeps
  every row.
\<close>

theorem duplicate_ids_flagged:
  "(get c1 ''ClientID'' = get c2 ''ClientID'' \<longrightarrow>
      map rowIndex (filter (\<lambda>e. type e = ''DuplicateID'') (validateClients_home [c1, c2] ts)) = [1]
      \<and> map row (filter (\<lambda>e. type e = ''duplicate_id'') (validateClients [c1, c2])) = [2]
      \<and> map row (filter (\<lambda>e. type e = ''duplicate_id'') (page_clients_errors [c1, c2])) = [2])
   \<and> map row (filter (\<lambda>e. type e = ''duplicate_id'') (validateClients data)) = map (\<lambda>i. int i + 1)
       (filter (\<lambda>i. \<exists>j<i. get (data ! j) ''ClientID'' = get (data ! i) ''ClientID'') [0..<length data])
   \<and> map row (filter (\<lambda>e. type e = ''duplicate_id'') (page_clients_errors data)) = map (\<lambda>i. int i + 1)
       (filter (\<lambda>i. \<exists>j<i. get (data ! j) ''ClientID'' = get (data ! i) ''ClientID'') [0..<length data])
   \<and> map row (filter (\<lambda>e. type e = ''duplicate_id'') (page_workers_errors data)) = map (\<lambda>i. int i + 1)
       (filter (\<lambda>i. \<exists>j<i. get (data ! j) ''WorkerID'' = get (data ! i) ''WorkerID'') [0..<length data])
   \<and> map row (filter (\<lambda>e. type e = ''duplicate_id'') (page_tasks_errors data)) = map (\<lambda>i. int i + 1)
       (filter (\<lambda>i. \<exists>j<i. get (data ! j) ''TaskID'' = get (data ! i) ''TaskID'') [0..<length data])
   \<and> map rowIndex (filter (\<lambda>e. type e = ''DuplicateID'') (validateClients_home data ts)) =
     filter (\<lambda>i. \<exists>j<i. get (data ! j) ''ClientID'' = get (data ! i) ''ClientID'') [0..<length data]
   \<and> map rowIndex (filter (\<lambda>e. type e = ''DuplicateID'') (validateWorkers_home data)) =
     filter (\<lambda>i. \<exists>j<i. get (data ! j) ''WorkerID'' = get (data ! i) ''WorkerID'') [0..<length data]
   \<and> map rowIndex (filter (\<lambda>e. type e = ''DuplicateID'') (validateTasks_home data ws)) =
     filter (\<lambda>i. \<exists>j<i. get (data ! j) ''TaskID'' = get (data ! i) ''TaskID'') [0..<length data]
   \<and> clientsData (handleFileUpload data Clients st) = data
   \<and> clientsData (validateClients_page data st) = clientsData st
   \<and> clients (run_validations hst) = clients hst"
proof -
  have stored: "clientsData (handleFileUpload data Clients st) = data"
    "clientsData (validateClients_page data st) = clientsData st"
    by (simp_all add: validateClients_page_def setValidationErrors_def Let_def)
  have kept: "clients (run_validations hst) = clients hst"
    by (simp add: run_validations_def Let_def)
  show ?thesis
    using two_rows_flagged [of c1 c2 ts] validateClients_flagged [of data]
      page_clients_flagged [of data] page_workers_flagged [of data] page_tasks_flagged [of data]
      home_clients_flagged [of data ts] home_workers_flagged [of data]
      home_tasks_flagged [of data ws] stored kept
    by simp
qed

theorem duplicate_ids_flagged_witness:
  "map rowIndex (filter (\<lambda>e. type e = ''DuplicateID'')
      (validateClients_home [[(''ClientID'', Str ''C1''), (''ClientName'', Str ''Acme'')],
                             [(''ClientID'', Str ''C1''), (''ClientName'', Str ''Bolt'')]] [])) = [1]
   \<and> map row (filter (\<lambda>e. type e = ''duplicate_id'')
      (validateClients [[(''ClientID'', Str ''C1''), (''ClientName'', Str ''Acme'')],
                        [(''ClientID'', Str ''C1''), (''ClientName'', Str ''Bolt'')]])) = [2]
   \<and> map row (filter (\<lambda>e. type e = ''duplicate_id'')
      (page_clients_errors [[(''ClientID'', Str ''C1''), (''ClientName'', Str ''Acme'')],
                            [(''ClientID'', Str ''C1''), (''ClientName'', Str ''Bolt'')]])) = [2]"
proof -
  have same: "get [(''ClientID'', Str ''C1''), (''ClientName'', Str ''Acme'')] ''ClientID'' =
              get [(''ClientID'', Str ''C1''), (''ClientName'', Str ''Bolt'')] ''ClientID''"
    by (simp add: get_def)
  show ?thesis
    using duplicate_ids_flagged
      [of "[(''ClientID'', Str ''C1''), (''ClientName'', Str ''Acme'')]"
          "[(''ClientID'', Str ''C1''), (''ClientName'', Str ''Bolt'')]" "[]",
       THEN conjunct1] same
    by blast
qed

section \<open>Running a validator again\<close>

text \<open>
  The page validators emit three error types, and none of them contains the tag its
  validator filters on: the filter keeps every error of an earlier run.
\<close>

lemma indexOf_tags:
  "indexOf ''duplicate_id'' ''client'' = - 1"
  "indexOf ''out_of_range'' ''client'' = - 1"
  "indexOf ''missing_required'' ''client'' = - 1"
  "indexOf ''duplicate_id'' ''worker'' = - 1"
  "indexOf ''out_of_range'' ''worker'' = - 1"
  "indexOf ''missing_required'' ''worker'' = - 1"
  "indexOf ''duplicate_id'' ''task'' = - 1"
  "indexOf ''out_of_range'' ''task'' = - 1"
  "indexOf ''missing_required'' ''task'' = - 1"
  by (simp_all add: indexOf_def)

lemma page_clients_types:
  assumes "e \<in> set (page_clients_errors data)"
  shows "type e \<in> {''duplicate_id'', ''out_of_range'', ''missing_required''}"
  using assms unfolding page_clients_concat
  by (auto simp: page_clients_row_eq split: if_splits)

lemma page_clients_kept:
  "filter (\<lambda>e. indexOf (type e) ''client'' = - 1) (page_clients_errors data) = page_clients_errors data"
proof -
  have "indexOf (type e) ''client'' = - 1" if "e \<in> set (page_clients_errors data)" for e
    using page_clients_types [OF that] indexOf_tags by auto
  then show ?thesis by (simp add: filter_id_conv)
qed

lemma validateClients_page_twice:
  "validationErrors (validateClients_page data (validateClients_page data st)) =
     validationErrors (validateClients_page data st) @ page_clients_errors data"
  by (simp add: validateClients_page_def setValidationErrors_def Let_def page_clients_kept)

lemma page_workers_types:
  assumes "e \<in> set (page_workers_errors data)"
  shows "type e \<in> {''duplicate_id'', ''missing_required'', ''out_of_range''}"
  using assms unfolding page_workers_concat
  by (auto simp: page_workers_row_eq split: if_splits)

lemma page_workers_kept:
  "filter (\<lambda>e. indexOf (type e) ''worker'' = - 1) (page_workers_errors data) = page_workers_errors data"
proof -
  have "indexOf (type e) ''worker'' = - 1" if "e \<in> set (page_workers_errors data)" for e
    using page_workers_types [OF that] indexOf_tags by auto
  then show ?thesis by (simp add: filter_id_conv)
qed

lemma validateWorkers_page_twice:
  "validationErrors (validateWorkers_page data (validateWorkers_page data st)) =
     validationErrors (validateWorkers_page data st) @ page_workers_errors data"
  by (simp add: validateWorkers_page_def setValidationErrors_def Let_def page_workers_kept)

lemma page_tasks_types:
  assumes "e \<in> set (page_tasks_errors data)"
  shows "type e \<in> {''duplicate_id'', ''out_of_range'', ''missing_required''}"
  using assms unfolding page_tasks_concat
  by (auto simp: page_tasks_row_eq split: if_splits)

lemma page_tasks_kept:
  "filter (\<lambda>e. indexOf (type e) ''task'' = - 1) (page_tasks_errors data) = page_tasks_errors data"
proof -
  have "indexOf (type e) ''task'' = - 1" if "e \<in> set (page_tasks_errors data)" for e
    using page_tasks_types [OF that] indexOf_tags by auto
  then show ?thesis by (simp add: filter_id_conv)
qed

lemma validateTasks_page_twice:
  "validationErrors (validateTasks_page data (validateTasks_page data st)) =
     validationErrors (validateTasks_page data st) @ page_tasks_errors data"
  by (simp add: validateTasks_page_def setValidationErrors_def Let_def page_tasks_kept)

text \<open>The Home component replaces its error list by a function of the datasets alone.\<close>

lemma run_validations_idempotent:
  "run_validations (run_validations st) = run_validations st"
  by (simp add: run_validations_def Let_def cong del: option.case_cong_weak)

text \<open>
  Claim C2. Re-running a validator over unchanged rows should leave the accumulated error
  list as after one run. In \<^verbatim>\<open>app/page.tsx\<close> it does not: uploading the same one-row
  Clients file (empty ClientID) twice leaves its missing-required error in the list
  twice, since the filter that is meant to drop the earlier run's errors looks for
  \<^verbatim>\<open>'client'\<close> in error types that never contain it.
\<close>

theorem revalidation_appends_again:
  "validationErrors
     (handleFileUpload [[(''ClientID'', Str ''''), (''ClientName'', Str ''Acme''),
         (''PriorityLevel'', Num 3)]] Clients
        initial_page_state) =
     [\<lparr>type = ''missing_required'', message = ''Missing required ClientID or ClientName'',
       row = 1, column = ''ClientID/ClientName''\<rparr>]
   \<and> validationErrors
     (handleFileUpload [[(''ClientID'', Str ''''), (''ClientName'', Str ''Acme''),
         (''PriorityLevel'', Num 3)]] Clients
       (handleFileUpload [[(''ClientID'', Str ''''), (''ClientName'', Str ''Acme''),
           (''PriorityLevel'', Num 3)]] Clients
          initial_page_state)) =
     [\<lparr>type = ''missing_required'', message = ''Missing required ClientID or ClientName'',
       row = 1, column = ''ClientID/ClientName''\<rparr>,
      \<lparr>type = ''missing_required'', message = ''Missing required ClientID or ClientName'',
       row = 1, column = ''ClientID/ClientName''\<rparr>]"
  by code_simp

theorem revalidation_appends_again_witness:
  "length (validationErrors
     (handleFileUpload [[(''ClientID'', Str ''''), (''ClientName'', Str ''Acme''),
         (''PriorityLevel'', Num 3)]] Clients
       (handleFileUpload [[(''ClientID'', Str ''''), (''ClientName'', Str ''Acme''),
           (''PriorityLevel'', Num 3)]] Clients
          initial_page_state))) = 2"
  using revalidation_appends_again by simp

section \<open>The report of the Home component\<close>







lemma filter_filter_conj: "filter (\<lambda>e. P e \<and> Q e) xs = filter P (filter Q xs)"
  by (induction xs) auto

section \<open>References from clients to tasks\<close>





section \<open>Numeric fields\<close>

lemma js_lt_Num: "js_lt (Num n) k = (n < k)"
  by (simp add: js_lt_def)

lemma js_gt_Num: "js_gt (Num n) k = (k < n)"
  by (simp add: js_gt_def)

lemma js_cmp_NaN:
  assumes "Number v = NaN"
  shows "\<not> js_lt v k" and "\<not> js_gt v k"
  using assms by (simp_all add: js_lt_def js_gt_def)






lemma priority_util_row:
  assumes "i < length cs"
  shows "filter (\<lambda>e. column e = ''PriorityLevel'' \<and> row e = int i + 1) (validateClients cs) =
     (if js_lt (get (cs ! i) ''PriorityLevel'') 1 \<or> js_gt (get (cs ! i) ''PriorityLevel'') 5
      then [\<lparr>type = ''out_of_range'',
             message = ''PriorityLevel must be 1-5, got: ''
                 @ js_String (get (cs ! i) ''PriorityLevel''),
             row = int i + 1, column = ''PriorityLevel''\<rparr>]
      else [])"
  unfolding filter_filter_conj validateClients_at [OF assms]
  by (simp add: validateClients_row_eq filter_if_single
        split del: if_split cong del: if_weak_cong)

lemma priority_page_row:
  assumes "i < length cs"
  shows "filter (\<lambda>e. column e = ''PriorityLevel'' \<and> row e = int i + 1) (page_clients_errors cs) =
     (if js_lt (get (cs ! i) ''PriorityLevel'') 1 \<or> js_gt (get (cs ! i) ''PriorityLevel'') 5
      then [\<lparr>type = ''out_of_range'',
             message = ''PriorityLevel must be 1-5, got: ''
                 @ js_String (get (cs ! i) ''PriorityLevel''),
             row = int i + 1, column = ''PriorityLevel''\<rparr>]
      else [])"
  unfolding filter_filter_conj page_clients_at [OF assms]
  by (simp add: page_clients_row_eq filter_if_single
        split del: if_split cong del: if_weak_cong)

lemma priority_home_row:
  assumes "i < length cs"
  shows "filter (\<lambda>e. field e = ''PriorityLevel'' \<and> rowIndex e = i) (validateClients_home cs ts) =
     (if truthy (get (cs ! i) ''PriorityLevel'')
         \<and> (js_lt (get (cs ! i) ''PriorityLevel'') 1 \<or> js_gt (get (cs ! i) ''PriorityLevel'') 5)
      then [\<lparr>type = ''OutOfRange'', message = ''PriorityLevel must be 1-5'',
             entity = ''clients'', rowIndex = i, field = ''PriorityLevel''\<rparr>]
      else [])"
  unfolding filter_filter_conj home_clients_at [OF assms]
  by (simp add: validateClients_home_row_eq filter_if_single filter_if_list filter_map comp_def
        split del: if_split cong del: if_weak_cong)

text \<open>
  For a Client row whose PriorityLevel is the number \<open>p\<close>: the validators of
  \<^verbatim>\<open>utils/validation.ts\<close> and \<^verbatim>\<open>app/page.tsx\<close> emit exactly one out-of-range error on
  PriorityLevel when \<open>p < 1\<close> or \<open>p > 5\<close> and none otherwise; the Home validator does the
  same except at \<open>p = 0\<close>, where its guard \<^verbatim>\<open>row.PriorityLevel && ...\<close> skips the check.
\<close>

lemma priority_level_range:
  assumes "i < length cs" and "get (cs ! i) ''PriorityLevel'' = Num p"
  shows "map type (filter (\<lambda>e. column e = ''PriorityLevel'' \<and> row e = int i + 1) (validateClients cs)) =
       (if p < 1 \<or> 5 < p then [''out_of_range''] else [])
     \<and> map type (filter (\<lambda>e. column e = ''PriorityLevel'' \<and> row e = int i + 1) (page_clients_errors cs)) =
       (if p < 1 \<or> 5 < p then [''out_of_range''] else [])
     \<and> map type (filter (\<lambda>e. field e = ''PriorityLevel'' \<and> rowIndex e = i)
                     (validateClients_home cs ts)) =
       (if p \<noteq> 0 \<and> (p < 1 \<or> 5 < p) then [''OutOfRange''] else [])"
  unfolding priority_util_row [OF assms(1)] priority_page_row [OF assms(1)]
    priority_home_row [OF assms(1)] assms(2)
  by (simp add: js_lt_Num js_gt_Num)

lemma priority_level_range_example:
  "map type (filter (\<lambda>e. field e = ''PriorityLevel'' \<and> rowIndex e = 1) (validateClients_home
         [[(''ClientID'', Str ''C1''), (''ClientName'', Str ''Acme''), (''PriorityLevel'', Num 1)],
          [(''ClientID'', Str ''C2''), (''ClientName'', Str ''Bolt''), (''PriorityLevel'', Num 6)],
          [(''ClientID'', Str ''C3''), (''ClientName'', Str ''Cord''), (''PriorityLevel'', Num 5)]]
         [])) =
     [''OutOfRange'']
   \<and> map type (filter (\<lambda>e. field e = ''PriorityLevel'' \<and> rowIndex e = 2) (validateClients_home
         [[(''ClientID'', Str ''C1''), (''ClientName'', Str ''Acme''), (''PriorityLevel'', Num 1)],
          [(''ClientID'', Str ''C2''), (''ClientName'', Str ''Bolt''), (''PriorityLevel'', Num 6)],
          [(''ClientID'', Str ''C3''), (''ClientName'', Str ''Cord''), (''PriorityLevel'', Num 5)]]
         [])) =
     []"
proof -
  let ?cs =
    "[[(''ClientID'', Str ''C1''), (''ClientName'', Str ''Acme''), (''PriorityLevel'', Num 1)],
      [(''ClientID'', Str ''C2''), (''ClientName'', Str ''Bolt''), (''PriorityLevel'', Num 6)],
      [(''ClientID'', Str ''C3''), (''ClientName'', Str ''Cord''), (''PriorityLevel'', Num 5)]]"
  have i1: "1 < length ?cs" and i2: "2 < length ?cs"
    by simp_all
  have p1: "get (?cs ! 1) ''PriorityLevel'' = Num 6"
    and p2: "get (?cs ! 2) ''PriorityLevel'' = Num 5"
    by (simp_all add: get_def)
  show ?thesis
    using priority_level_range [OF i1 p1, of "[]"] priority_level_range [OF i2 p2, of "[]"]
    by simp
qed

text \<open>
  Claim C5. A numeric PriorityLevel outside [1,5] should yield exactly one out-of-range
  error on PriorityLevel. At 0 the Home validator yields none: a Clients file whose only
  row has PriorityLevel 0 leaves the report empty, while \<^verbatim>\<open>utils/validation.ts\<close> flags the
  same row.
\<close>

theorem priority_zero_passes:
  "homeValidationErrors (run_validations (handleUpload Clients
        [[(''ClientID'', Str ''C1''), (''ClientName'', Str ''Acme''), (''PriorityLevel'', Num 0)]]
        initial_home_state)) = []
   \<and> validateClients
     [[(''ClientID'', Str ''C1''), (''ClientName'', Str ''Acme''), (''PriorityLevel'', Num 0)]] =
     [\<lparr>type = ''out_of_range'', message = ''PriorityLevel must be 1-5, got: 0'',
       row = 1, column = ''PriorityLevel''\<rparr>]"
  by code_simp

theorem priority_zero_passes_witness:
  "length (homeValidationErrors (run_validations (handleUpload Clients
        [[(''ClientID'', Str ''C1''), (''ClientName'', Str ''Acme''), (''PriorityLevel'', Num 0)]]
        initial_home_state))) = 0
   \<and> length (validateClients
     [[(''ClientID'', Str ''C1''), (''ClientName'', Str ''Acme''), (''PriorityLevel'', Num 0)]]) = 1"
  using priority_zero_passes by simp

section \<open>Skill coverage\<close>





section \<open>AttributesJSON\<close>

lemma json_object_parses:
  \<open>JSON_parse ''{"a":1}'' = Some (JObject [(''a'', JNumber ''1'')])\<close>
  by code_simp

lemma json_bare_key_rejected:
  \<open>JSON_parse ''{a:1}'' = None\<close>
  by code_simp

lemma json_util_row:
  assumes "i < length cs"
  shows "filter (\<lambda>e. column e = ''AttributesJSON'' \<and> row e = int i + 1) (validateClients cs) =
     (if truthy (get (cs ! i) ''AttributesJSON'')
         \<and> JSON_parse (js_String (get (cs ! i) ''AttributesJSON'')) = None
      then [\<lparr>type = ''invalid_json'', message = ''Invalid JSON in AttributesJSON'',
             row = int i + 1, column = ''AttributesJSON''\<rparr>]
      else [])"
  unfolding filter_filter_conj validateClients_at [OF assms]
  by (simp add: validateClients_row_eq filter_if_single
        split del: if_split cong del: if_weak_cong)

lemma json_home_row:
  assumes "i < length cs"
  shows "filter (\<lambda>e. field e = ''AttributesJSON'' \<and> rowIndex e = i) (validateClients_home cs ts) =
     (if truthy (get (cs ! i) ''AttributesJSON'')
         \<and> JSON_parse (js_String (get (cs ! i) ''AttributesJSON'')) = None
      then [\<lparr>type = ''BrokenJSON'', message = ''AttributesJSON is not valid JSON'',
             entity = ''clients'', rowIndex = i, field = ''AttributesJSON''\<rparr>]
      else [])"
  unfolding filter_filter_conj home_clients_at [OF assms]
  by (simp add: validateClients_home_row_eq filter_if_single filter_if_list filter_map comp_def
        split del: if_split cong del: if_weak_cong)

text \<open>
  Claim C8. For every Client row, in \<^verbatim>\<open>utils/validation.ts\<close> and in the Home validator:
  the errors on AttributesJSON are exactly one error of the broken-JSON kind
  (\<^verbatim>\<open>invalid_json\<close>, \<^verbatim>\<open>BrokenJSON\<close>) when the value is non-empty and \<^verbatim>\<open>JSON.parse\<close>
  rejects it, and none when the value parses or is empty or absent.
\<close>

theorem attributes_json_checked:
  assumes "i < length cs"
  shows "map type (filter (\<lambda>e. column e = ''AttributesJSON''
      \<and> row e = int i + 1) (validateClients cs)) =
       (if truthy (get (cs ! i) ''AttributesJSON'')
           \<and> JSON_parse (js_String (get (cs ! i) ''AttributesJSON'')) = None
        then [''invalid_json''] else [])
     \<and> map type (filter (\<lambda>e. field e = ''AttributesJSON''
         \<and> rowIndex e = i) (validateClients_home cs ts)) =
       (if truthy (get (cs ! i) ''AttributesJSON'')
           \<and> JSON_parse (js_String (get (cs ! i) ''AttributesJSON'')) = None
        then [''BrokenJSON''] else [])
     \<and> (get (cs ! i) ''AttributesJSON'' = Undefined \<or> get (cs ! i) ''AttributesJSON'' = Str []
          \<longrightarrow> filter (\<lambda>e. column e = ''AttributesJSON'' \<and> row e = int i + 1) (validateClients cs) = []
            \<and> filter (\<lambda>e. field e = ''AttributesJSON''
                \<and> rowIndex e = i) (validateClients_home cs ts) = [])"
  unfolding json_util_row [OF assms] json_home_row [OF assms]
  by auto

theorem attributes_json_checked_witness:
  \<open>map type (filter (\<lambda>e. field e = ''AttributesJSON'' \<and> rowIndex e = 0) (validateClients_home
        [[(''ClientID'', Str ''C1''), (''ClientName'', Str ''Acme''), (''AttributesJSON'', Str ''{"a":1}'')],
         [(''ClientID'', Str ''C2''), (''ClientName'', Str ''Bolt''), (''AttributesJSON'', Str ''{a:1}'')],
         [(''ClientID'', Str ''C3''), (''ClientName'', Str ''Cord''), (''AttributesJSON'', Str '''')],
         [(''ClientID'', Str ''C4''), (''ClientName'', Str ''Dune'')]] [])) = []
   \<and> map type (filter (\<lambda>e. field e = ''AttributesJSON'' \<and> rowIndex e = 1) (validateClients_home
        [[(''ClientID'', Str ''C1''), (''ClientName'', Str ''Acme''), (''AttributesJSON'', Str ''{"a":1}'')],
         [(''ClientID'', Str ''C2''), (''ClientName'', Str ''Bolt''), (''AttributesJSON'', Str ''{a:1}'')],
         [(''ClientID'', Str ''C3''), (''ClientName'', Str ''Cord''), (''AttributesJSON'', Str '''')],
         [(''ClientID'', Str ''C4''), (''ClientName'', Str ''Dune'')]] [])) = [''BrokenJSON'']
   \<and> map type (filter (\<lambda>e. column e = ''AttributesJSON'' \<and> row e = 2) (validateClients
        [[(''ClientID'', Str ''C1''), (''ClientName'', Str ''Acme''), (''AttributesJSON'', Str ''{"a":1}'')],
         [(''ClientID'', Str ''C2''), (''ClientName'', Str ''Bolt''), (''AttributesJSON'', Str ''{a:1}'')],
         [(''ClientID'', Str ''C3''), (''ClientName'', Str ''Cord''), (''AttributesJSON'', Str '''')],
         [(''ClientID'', Str ''C4''), (''ClientName'', Str ''Dune'')]])) = [''invalid_json'']
   \<and> map type (filter (\<lambda>e. field e = ''AttributesJSON'' \<and> rowIndex e = 2) (validateClients_home
        [[(''ClientID'', Str ''C1''), (''ClientName'', Str ''Acme''), (''AttributesJSON'', Str ''{"a":1}'')],
         [(''ClientID'', Str ''C2''), (''ClientName'', Str ''Bolt''), (''AttributesJSON'', Str ''{a:1}'')],
         [(''ClientID'', Str ''C3''), (''ClientName'', Str ''Cord''), (''AttributesJSON'', Str '''')],
         [(''ClientID'', Str ''C4''), (''ClientName'', Str ''Dune'')]] [])) = []
   \<and> map type (filter (\<lambda>e. field e = ''AttributesJSON'' \<and> rowIndex e = 3) (validateClients_home
        [[(''ClientID'', Str ''C1''), (''ClientName'', Str ''Acme''), (''AttributesJSON'', Str ''{"a":1}'')],
         [(''ClientID'', Str ''C2''), (''ClientName'', Str ''Bolt''), (''AttributesJSON'', Str ''{a:1}'')],
         [(''ClientID'', Str ''C3''), (''ClientName'', Str ''Cord''), (''AttributesJSON'', Str '''')],
         [(''ClientID'', Str ''C4''), (''ClientName'', Str ''Dune'')]] [])) = []\<close>
proof -
  let ?cs = \<open>[[(''ClientID'', Str ''C1''), (''ClientName'', Str ''Acme''), (''AttributesJSON'',
      Str ''{"a":1}'')],
         [(''ClientID'', Str ''C2''), (''ClientName'', Str ''Bolt''), (''AttributesJSON'', Str ''{a:1}'')],
         [(''ClientID'', Str ''C3''), (''ClientName'', Str ''Cord''), (''AttributesJSON'', Str '''')],
         [(''ClientID'', Str ''C4''), (''ClientName'', Str ''Dune'')]]\<close>
  have i: "0 < length ?cs" "1 < length ?cs" "2 < length ?cs" "3 < length ?cs" by simp_all
  show ?thesis
    using attributes_json_checked [OF i(1), of "[]"] attributes_json_checked [OF i(2), of "[]"]
      attributes_json_checked [OF i(3), of "[]"] attributes_json_checked [OF i(4), of "[]"]
    by (simp add: get_def json_object_parses json_bare_key_rejected)
qed

section \<open>A PriorityLevel that is not a number\<close>

lemma word_is_not_a_number: "Number (Str ''high'') = NaN"
  by code_simp

text \<open>
  Claim C9. If the PriorityLevel of a Client row is absent or does not convert to a
  number (\<^verbatim>\<open>Number(x)\<close> is NaN, so both comparisons are false), no validator emits any
  error on PriorityLevel for that row.
\<close>

theorem priority_not_a_number_passes:
  assumes "i < length cs" and "Number (get (cs ! i) ''PriorityLevel'') = NaN"
  shows "filter (\<lambda>e. column e = ''PriorityLevel'' \<and> row e = int i + 1) (validateClients cs) = []
     \<and> filter (\<lambda>e. column e = ''PriorityLevel'' \<and> row e = int i + 1) (page_clients_errors cs) = []
     \<and> filter (\<lambda>e. field e = ''PriorityLevel'' \<and> rowIndex e = i) (validateClients_home cs ts) = []"
  unfolding priority_util_row [OF assms(1)] priority_page_row [OF assms(1)]
    priority_home_row [OF assms(1)]
  using js_cmp_NaN [OF assms(2)] by simp

theorem priority_not_a_number_passes_witness:
  "filter (\<lambda>e. column e = ''PriorityLevel'' \<and> row e = 1)
     (validateClients [[(''ClientID'', Str ''C1''), (''ClientName'', Str ''Acme'')],
                       [(''ClientID'', Str ''C2''), (''ClientName'', Str ''Bolt''),
                           (''PriorityLevel'', Str ''high'')]]) = []
   \<and> filter (\<lambda>e. column e = ''PriorityLevel'' \<and> row e = 2)
     (validateClients [[(''ClientID'', Str ''C1''), (''ClientName'', Str ''Acme'')],
                       [(''ClientID'', Str ''C2''), (''ClientName'', Str ''Bolt''),
                           (''PriorityLevel'', Str ''high'')]]) = []
   \<and> filter (\<lambda>e. field e = ''PriorityLevel'' \<and> rowIndex e = 1)
     (validateClients_home [[(''ClientID'', Str ''C1''), (''ClientName'', Str ''Acme'')],
                            [(''ClientID'', Str ''C2''), (''ClientName'', Str ''Bolt''),
                                (''PriorityLevel'', Str ''high'')]] []) = []"
proof -
  let ?cs = "[[(''ClientID'', Str ''C1''), (''ClientName'', Str ''Acme'')],
              [(''ClientID'', Str ''C2''), (''ClientName'', Str ''Bolt''), (''PriorityLevel'', Str ''high'')]]"
  have i: "0 < length ?cs" "1 < length ?cs" by simp_all
  have absent: "Number (get (?cs ! 0) ''PriorityLevel'') = NaN"
    by (simp add: get_def)
  have word: "Number (get (?cs ! 1) ''PriorityLevel'') = NaN"
    using word_is_not_a_number by (simp add: get_def)
  show ?thesis
    using priority_not_a_number_passes [OF i(1) absent, of "[]"]
      priority_not_a_number_passes [OF i(2) word, of "[]"]
    by simp
qed

section \<open>Empty identifiers\<close>

text \<open>
  Claim C10. A row whose identifier is the empty string takes part in duplicate
  detection like any other. For two Client rows whose ClientID is \<^verbatim>\<open>""\<close>, every
  validator attaches one duplicate error to the second row; those of
  \<^verbatim>\<open>utils/validation.ts\<close> and \<^verbatim>\<open>app/page.tsx\<close>, which check required fields, also attach a
  missing-required error to each of the two rows.
\<close>

theorem empty_ids_are_duplicates:
  assumes "get c1 ''ClientID'' = Str []" and "get c2 ''ClientID'' = Str []"
  shows "map row (filter (\<lambda>e. type e = ''duplicate_id'') (validateClients [c1, c2])) = [2]
     \<and> map row (filter (\<lambda>e. type e = ''missing_required'') (validateClients [c1, c2])) = [1, 2]
     \<and> map row (filter (\<lambda>e. type e = ''duplicate_id'') (page_clients_errors [c1, c2])) = [2]
     \<and> map row (filter (\<lambda>e. type e = ''missing_required'') (page_clients_errors [c1, c2])) = [1, 2]
     \<and> map rowIndex (filter (\<lambda>e. type e = ''DuplicateID'') 
           (validateClients_home [c1, c2] ts)) = [1]"
  by (simp add: validateClients_def page_clients_errors_def validateClients_home_def
        validateClients_row_eq page_clients_row_eq validateClients_home_row_eq assms
        filter_if_single map_if_single filter_if_list filter_map comp_def Let_def
        split del: if_split cong del: if_weak_cong)

theorem empty_ids_are_duplicates_witness:
  "map row (filter (\<lambda>e. type e = ''duplicate_id'')
      (validateClients [[(''ClientID'', Str ''''), (''ClientName'', Str ''Acme'')],
                        [(''ClientID'', Str ''''), (''ClientName'', Str ''Bolt'')]])) = [2]
   \<and> map row (filter (\<lambda>e. type e = ''missing_required'')
      (validateClients [[(''ClientID'', Str ''''), (''ClientName'', Str ''Acme'')],
                        [(''ClientID'', Str ''''), (''ClientName'', Str ''Bolt'')]])) = [1, 2]"
proof -
  have a: "get [(''ClientID'', Str ''''), (''ClientName'', Str ''Acme'')] ''ClientID'' = Str []"
    and b: "get [(''ClientID'', Str ''''), (''ClientName'', Str ''Bolt'')] ''ClientID'' = Str []"
    by (simp_all add: get_def)
  show ?thesis
    using empty_ids_are_duplicates [OF a b] by simp
qed

section \<open>The order of the checks within a row\<close>











end
